theory Spec2Isabelle
  imports Complex_Main
begin

section \<open>Numbers and array helpers\<close>

text \<open>
  The metric fields of the TypeScript code are JavaScript numbers. Finite numbers are
  modelled as reals (rounding is not modelled). Every division of the detector is guarded
  by a non-empty check in the source, so it stays within the finite numbers; the
  unguarded divisions (the means of an experiment result, the score, the average sample
  length of a baseline) are modelled further down with a number type that has NaN and
  the infinities.
\<close>

text \<open>\<^verbatim>\<open>xs.reduce((a, b) => a + b, 0)\<close>: a left fold from 0.\<close>

definition sum_reduce :: "real list \<Rightarrow> real" where
  "sum_reduce xs = foldl (+) 0 xs"

text \<open>\<^verbatim>\<open>xs.slice(-n)\<close> for a positive literal n: the last n elements, all of them when
  there are fewer.\<close>

definition slice_last :: "nat \<Rightarrow> 'a list \<Rightarrow> 'a list" where
  "slice_last n xs = drop (length xs - n) xs"

section \<open>Cognitive overload detector\<close>

record CognitiveMetrics =
  agentId :: string
  timestamp :: nat
  contextWindowUsage :: real
  processingLatency :: real
  errorRate :: real
  semanticConsistency :: real
  cognitiveLoadIndex :: real

record DerivedBaseline =
  latency :: real
  contextUsage :: real
  consistency :: real

text \<open>The two private maps of the class CognitiveOverloadDetector.\<close>

record Detector =
  metrics :: "string \<rightharpoonup> CognitiveMetrics list"
  baselines :: "string \<rightharpoonup> DerivedBaseline"

definition new_Detector :: Detector where
  "new_Detector = \<lparr>metrics = Map.empty, baselines = Map.empty\<rparr>"

text \<open>The constant table \<^verbatim>\<open>thresholds\<close>.\<close>

definition contextWindow_warning :: real where "contextWindow_warning = 0.75"
definition contextWindow_critical :: real where "contextWindow_critical = 0.90"
definition latency_baselineMs :: real where "latency_baselineMs = 1000"
definition latency_warningMultiplier :: real where "latency_warningMultiplier = 1.5"
definition latency_criticalMultiplier :: real where "latency_criticalMultiplier = 2.0"
definition errorRate_warning :: real where "errorRate_warning = 0.05"
definition errorRate_critical :: real where "errorRate_critical = 0.10"
definition semanticDrift_warning :: real where "semanticDrift_warning = 0.25"
definition semanticDrift_critical :: real where "semanticDrift_critical = 0.40"

text \<open>\<^verbatim>\<open>this.metrics.get(agentId) || []\<close>\<close>

definition history :: "Detector \<Rightarrow> string \<Rightarrow> CognitiveMetrics list" where
  "history d a = (case metrics d a of None \<Rightarrow> [] | Some ms \<Rightarrow> ms)"

definition getRecentMetrics :: "Detector \<Rightarrow> string \<Rightarrow> nat \<Rightarrow> CognitiveMetrics list" where
  "getRecentMetrics d a count = slice_last count (history d a)"

text \<open>\<^verbatim>\<open>ms.map(m => m.f).reduce((a, b) => a + b, 0) / ms.length\<close>, used by the detector
  only where the source has checked that \<^verbatim>\<open>ms\<close> is not empty.\<close>

definition mean_of :: "(CognitiveMetrics \<Rightarrow> real) \<Rightarrow> CognitiveMetrics list \<Rightarrow> real" where
  "mean_of f ms = sum_reduce (map f ms) / real (length ms)"

definition createDefaultBaseline :: DerivedBaseline where
  "createDefaultBaseline = \<lparr>latency = latency_baselineMs, contextUsage = 0.40, consistency = 0.90\<rparr>"

text \<open>\<^verbatim>\<open>this.baselines.get(agentId) || this.createDefaultBaseline()\<close>\<close>

definition baseline_or_default :: "Detector \<Rightarrow> string \<Rightarrow> DerivedBaseline" where
  "baseline_or_default d a = (case baselines d a of None \<Rightarrow> createDefaultBaseline | Some b \<Rightarrow> b)"

definition isHealthy :: "CognitiveMetrics \<Rightarrow> bool" where
  "isHealthy m = (errorRate m < 0.05 \<and> semanticConsistency m > 0.85)"

definition updateBaseline :: "Detector \<Rightarrow> string \<Rightarrow> Detector" where
  "updateBaseline d a =
     (let ms = history d a in
      if length ms < 20 then d
      else
        let healthyMetrics = slice_last 50 (filter isHealthy ms) in
        if length healthyMetrics > 10
        then d\<lparr>baselines := (baselines d)(a \<mapsto>
                 \<lparr>latency = mean_of processingLatency healthyMetrics,
                  contextUsage = mean_of contextWindowUsage healthyMetrics,
                  consistency = mean_of semanticConsistency healthyMetrics\<rparr>)\<rparr>
        else d)"

definition recordMetric :: "Detector \<Rightarrow> CognitiveMetrics \<Rightarrow> Detector" where
  "recordMetric d m =
     (let pushed = history d (agentId m) @ [m];
          agentMetrics = (if length pushed > 1000 then tl pushed else pushed)
      in updateBaseline (d\<lparr>metrics := (metrics d)(agentId m \<mapsto> agentMetrics)\<rparr>) (agentId m))"

definition normalizeMetric :: "real \<Rightarrow> real \<Rightarrow> real \<Rightarrow> real" where
  "normalizeMetric v mn mx = (if mx = mn then 0 else max 0 (min 1 ((v - mn) / (mx - mn))))"

definition calculateCognitiveLoad :: "Detector \<Rightarrow> string \<Rightarrow> real" where
  "calculateCognitiveLoad d a =
     (let recent = getRecentMetrics d a 10 in
      if length recent = 0 then 0
      else
        let baseline = baseline_or_default d a;
            contextLoad = normalizeMetric (mean_of contextWindowUsage recent) 0 1;
            latencyLoad = normalizeMetric (mean_of processingLatency recent)
                            (latency baseline) (latency baseline * 3);
            errorLoad = normalizeMetric (mean_of errorRate recent) 0 0.20;
            driftLoad = normalizeMetric (1 - mean_of semanticConsistency recent) 0 0.50
        in contextLoad * 0.25 + latencyLoad * 0.25 + errorLoad * 0.30 + driftLoad * 0.20)"

datatype Severity = SevNone | Warning | Critical

record OverloadResult =
  isOverloaded :: bool
  severity :: Severity
  factors :: "string list"
  recommendations :: "string list"

text \<open>
  The four checks of \<^verbatim>\<open>detectOverload\<close> are four copies of one block:
  \<^verbatim>\<open>
  if (value >= critical) { factors.push(cf); recommendations.push(cr); severity = 'critical'; }
  else if (value >= warning) { factors.push(wf); recommendations.push(wr);
                               if (severity === 'none') severity = 'warning'; }
  \<close>
  \<open>threshold_check\<close> is that block, acting on the three local variables.
\<close>

definition threshold_check ::
  "real \<Rightarrow> real \<Rightarrow> real \<Rightarrow> string \<times> string \<Rightarrow> string \<times> string \<Rightarrow>
   Severity \<times> string list \<times> string list \<Rightarrow> Severity \<times> string list \<times> string list" where
  "threshold_check v critical warning crit_msg warn_msg acc =
     (case acc of (sev, fs, rs) \<Rightarrow>
        if v \<ge> critical then (Critical, fs @ [fst crit_msg], rs @ [snd crit_msg])
        else if v \<ge> warning
          then ((if sev = SevNone then Warning else sev), fs @ [fst warn_msg], rs @ [snd warn_msg])
        else (sev, fs, rs))"

definition detectOverload :: "Detector \<Rightarrow> string \<Rightarrow> OverloadResult" where
  "detectOverload d a =
     (let recent = getRecentMetrics d a 5 in
      if length recent = 0
      then \<lparr>isOverloaded = False, severity = SevNone, factors = [], recommendations = []\<rparr>
      else
        let avg_contextWindow = mean_of contextWindowUsage recent;
            avg_latency = mean_of processingLatency recent;
            avg_errorRate = mean_of errorRate recent;
            avg_semanticDrift = 1 - mean_of semanticConsistency recent;
            acc0 = (SevNone, [], []);
            acc1 = threshold_check avg_contextWindow contextWindow_critical contextWindow_warning
                     (''Critical context window usage'', ''Reduce context size or implement chunking'')
                     (''High context window usage'', ''Consider context optimization'') acc0;
            baseline = baseline_or_default d a;
            acc2 = threshold_check avg_latency
                     (latency baseline * latency_criticalMultiplier)
                     (latency baseline * latency_warningMultiplier)
                     (''Critical processing latency'', ''Investigate performance bottlenecks'')
                     (''Elevated processing latency'', ''Monitor system resources'') acc1;
            acc3 = threshold_check avg_errorRate errorRate_critical errorRate_warning
                     (''Critical error rate'', ''Review agent training and protocols'')
                     (''Elevated error rate'', ''Check recent changes and inputs'') acc2;
            acc4 = threshold_check avg_semanticDrift semanticDrift_critical semanticDrift_warning
                     (''Critical semantic drift'', ''Retrain agent or reset context'')
                     (''Significant semantic drift'', ''Reinforce training protocols'') acc3
        in (case acc4 of (sev, fs, rs) \<Rightarrow>
              \<lparr>isOverloaded = (sev \<noteq> SevNone), severity = sev, factors = fs, recommendations = rs\<rparr>))"

text \<open>A sequence of \<^verbatim>\<open>recordMetric\<close> calls, in order.\<close>

definition record_all :: "Detector \<Rightarrow> CognitiveMetrics list \<Rightarrow> Detector" where
  "record_all d ms = foldl recordMetric d ms"

subsection \<open>The specification's wording of the load formula\<close>

definition clamp01 :: "real \<Rightarrow> real" where
  "clamp01 x = max 0 (min 1 x)"

definition normalize_spec :: "real \<Rightarrow> real \<Rightarrow> real \<Rightarrow> real" where
  "normalize_spec v lo hi = (if hi = lo then 0 else clamp01 ((v - lo) / (hi - lo)))"

definition mean_spec :: "real list \<Rightarrow> real" where
  "mean_spec xs = sum_list xs / real (length xs)"

subsection \<open>Example data\<close>

definition sample_metric :: "nat \<Rightarrow> CognitiveMetrics" where
  "sample_metric t = \<lparr>agentId = ''a'', timestamp = t, contextWindowUsage = 0.5,
     processingLatency = 1000, errorRate = 0.01, semanticConsistency = 0.95,
     cognitiveLoadIndex = 0\<rparr>"

definition loaded_metric :: CognitiveMetrics where
  "loaded_metric = \<lparr>agentId = ''a'', timestamp = 0, contextWindowUsage = 0.5,
     processingLatency = 2000, errorRate = 0.1, semanticConsistency = 0.75,
     cognitiveLoadIndex = 0\<rparr>"

subsection \<open>Severity as the maximum over the four checks\<close>

definition level :: "real \<Rightarrow> real \<Rightarrow> real \<Rightarrow> Severity" where
  "level v critical warning =
     (if v \<ge> critical then Critical else if v \<ge> warning then Warning else SevNone)"

fun sev_max :: "Severity \<Rightarrow> Severity \<Rightarrow> Severity" where
  "sev_max Critical _ = Critical"
| "sev_max _ Critical = Critical"
| "sev_max Warning _ = Warning"
| "sev_max _ Warning = Warning"
| "sev_max SevNone SevNone = SevNone"

text \<open>The level each check reaches on its own, in the order context, latency, error, drift.\<close>

definition check_levels :: "Detector \<Rightarrow> string \<Rightarrow> Severity list" where
  "check_levels d a =
     (let recent = getRecentMetrics d a 5; baseline = baseline_or_default d a in
      [level (mean_of contextWindowUsage recent) contextWindow_critical contextWindow_warning,
       level (mean_of processingLatency recent)
         (latency baseline * latency_criticalMultiplier) (latency baseline * latency_warningMultiplier),
       level (mean_of errorRate recent) errorRate_critical errorRate_warning,
       level (1 - mean_of semanticConsistency recent) semanticDrift_critical semanticDrift_warning])"

definition hot_context_metric :: CognitiveMetrics where
  "hot_context_metric = \<lparr>agentId = ''a'', timestamp = 0, contextWindowUsage = 0.95,
     processingLatency = 1600, errorRate = 0.01, semanticConsistency = 0.95,
     cognitiveLoadIndex = 0\<rparr>"

definition warm_context_metric :: CognitiveMetrics where
  "warm_context_metric = \<lparr>agentId = ''a'', timestamp = 0, contextWindowUsage = 0.80,
     processingLatency = 1000, errorRate = 0.01, semanticConsistency = 0.95,
     cognitiveLoadIndex = 0\<rparr>"

subsection \<open>Baseline recalibration\<close>

text \<open>The baseline record that \<^verbatim>\<open>updateBaseline\<close> builds from the records it selected.\<close>

definition baseline_of :: "CognitiveMetrics list \<Rightarrow> DerivedBaseline" where
  "baseline_of sel =
     \<lparr>latency = mean_spec (map processingLatency sel),
      contextUsage = mean_spec (map contextWindowUsage sel),
      consistency = mean_spec (map semanticConsistency sel)\<rparr>"

text \<open>The specification's wording of the selection: the healthy subset of the most recent
  50 history records.\<close>

definition healthy_of_recent_spec :: "CognitiveMetrics list \<Rightarrow> CognitiveMetrics list" where
  "healthy_of_recent_spec ms = filter isHealthy (slice_last 50 ms)"

definition fast_metric :: CognitiveMetrics where
  "fast_metric = \<lparr>agentId = ''a'', timestamp = 0, contextWindowUsage = 0.5,
     processingLatency = 100, errorRate = 0.01, semanticConsistency = 0.95,
     cognitiveLoadIndex = 0\<rparr>"

definition failing_metric :: CognitiveMetrics where
  "failing_metric = \<lparr>agentId = ''a'', timestamp = 0, contextWindowUsage = 0.5,
     processingLatency = 100, errorRate = 0.5, semanticConsistency = 0.95,
     cognitiveLoadIndex = 0\<rparr>"

definition slow_metric :: CognitiveMetrics where
  "slow_metric = \<lparr>agentId = ''a'', timestamp = 0, contextWindowUsage = 0.5,
     processingLatency = 500, errorRate = 0.01, semanticConsistency = 0.95,
     cognitiveLoadIndex = 0\<rparr>"

text \<open>61 records for agent a: 11 healthy fast ones, 39 unhealthy ones, 11 healthy slow ones.\<close>

definition recovery_run :: "CognitiveMetrics list" where
  "recovery_run = replicate 11 fast_metric @ replicate 39 failing_metric @ replicate 11 slow_metric"

section \<open>JavaScript numbers with NaN and infinities\<close>

text \<open>
  Where the source divides without a guard, the quotient can be NaN or an infinity.
  \<open>jsnum\<close> is a JavaScript number with exact arithmetic on the finite values; rounding and
  the sign of zero are not modelled (a zero divisor counts as +0).
\<close>

datatype jsnum = Fin real | PosInf | NegInf | NaN

fun js_neg :: "jsnum \<Rightarrow> jsnum" where
  "js_neg (Fin x) = Fin (- x)"
| "js_neg PosInf = NegInf"
| "js_neg NegInf = PosInf"
| "js_neg NaN = NaN"

fun js_add :: "jsnum \<Rightarrow> jsnum \<Rightarrow> jsnum" where
  "js_add NaN _ = NaN"
| "js_add _ NaN = NaN"
| "js_add (Fin x) (Fin y) = Fin (x + y)"
| "js_add PosInf NegInf = NaN"
| "js_add NegInf PosInf = NaN"
| "js_add PosInf _ = PosInf"
| "js_add _ PosInf = PosInf"
| "js_add NegInf _ = NegInf"
| "js_add _ NegInf = NegInf"

definition js_sub :: "jsnum \<Rightarrow> jsnum \<Rightarrow> jsnum" where
  "js_sub a b = js_add a (js_neg b)"

text \<open>The sign of a product or quotient with an infinite operand.\<close>

definition signed_inf :: "bool \<Rightarrow> jsnum" where
  "signed_inf positive = (if positive then PosInf else NegInf)"

fun js_mul :: "jsnum \<Rightarrow> jsnum \<Rightarrow> jsnum" where
  "js_mul NaN _ = NaN"
| "js_mul _ NaN = NaN"
| "js_mul (Fin x) (Fin y) = Fin (x * y)"
| "js_mul (Fin x) PosInf = (if x = 0 then NaN else signed_inf (x > 0))"
| "js_mul (Fin x) NegInf = (if x = 0 then NaN else signed_inf (x < 0))"
| "js_mul PosInf (Fin y) = (if y = 0 then NaN else signed_inf (y > 0))"
| "js_mul NegInf (Fin y) = (if y = 0 then NaN else signed_inf (y < 0))"
| "js_mul PosInf PosInf = PosInf"
| "js_mul NegInf NegInf = PosInf"
| "js_mul PosInf NegInf = NegInf"
| "js_mul NegInf PosInf = NegInf"

fun js_div :: "jsnum \<Rightarrow> jsnum \<Rightarrow> jsnum" where
  "js_div NaN _ = NaN"
| "js_div _ NaN = NaN"
| "js_div (Fin x) (Fin y) =
     (if y \<noteq> 0 then Fin (x / y) else if x = 0 then NaN else signed_inf (x > 0))"
| "js_div (Fin x) PosInf = Fin 0"
| "js_div (Fin x) NegInf = Fin 0"
| "js_div PosInf (Fin y) = signed_inf (y \<ge> 0)"
| "js_div NegInf (Fin y) = signed_inf (y < 0)"
| "js_div PosInf PosInf = NaN"
| "js_div PosInf NegInf = NaN"
| "js_div NegInf PosInf = NaN"
| "js_div NegInf NegInf = NaN"

fun js_gt :: "jsnum \<Rightarrow> jsnum \<Rightarrow> bool" where
  "js_gt NaN _ = False"
| "js_gt _ NaN = False"
| "js_gt (Fin x) (Fin y) = (x > y)"
| "js_gt PosInf PosInf = False"
| "js_gt PosInf _ = True"
| "js_gt _ PosInf = False"
| "js_gt NegInf _ = False"
| "js_gt _ NegInf = True"

definition js_lt :: "jsnum \<Rightarrow> jsnum \<Rightarrow> bool" where
  "js_lt a b = js_gt b a"

text \<open>\<^verbatim>\<open>xs.reduce((sum, x) => sum + x, 0) / xs.length\<close> without a guard: NaN on the empty
  array.\<close>

definition js_mean :: "real list \<Rightarrow> jsnum" where
  "js_mean xs = js_div (Fin (sum_reduce xs)) (Fin (real (length xs)))"

section \<open>Strings\<close>

text \<open>
  Strings are modelled as ASCII text. \<^verbatim>\<open>toLowerCase\<close> maps A to Z to a to z, and the
  class \<^verbatim>\<open>\s\<close> holds space, tab, line feed, vertical tab, form feed and carriage return.
\<close>

definition char_lower :: "char \<Rightarrow> char" where
  "char_lower c =
     (case map_of (zip ''ABCDEFGHIJKLMNOPQRSTUVWXYZ'' ''abcdefghijklmnopqrstuvwxyz'') c of
        None \<Rightarrow> c | Some l \<Rightarrow> l)"

definition toLowerCase :: "string \<Rightarrow> string" where
  "toLowerCase s = map char_lower s"

definition is_space :: "char \<Rightarrow> bool" where
  "is_space c = (c \<in> set [CHR '' '', CHR 0x09, CHR 0x0A, CHR 0x0B, CHR 0x0C, CHR 0x0D])"

text \<open>
  \<^verbatim>\<open>s.split(/\s+/)\<close>: the pieces between maximal runs of whitespace, with an empty piece
  before a leading run and after a trailing one; the empty string gives one empty piece.
  \<open>in_run\<close> says that the previous character was whitespace, \<open>cur\<close> is the piece being
  read, reversed.
\<close>

fun split_go :: "bool \<Rightarrow> string \<Rightarrow> string \<Rightarrow> string list" where
  "split_go in_run cur [] = [rev cur]"
| "split_go in_run cur (c # cs) =
     (if is_space c
      then (if in_run then split_go True [] cs else rev cur # split_go True [] cs)
      else split_go False (c # cur) cs)"

definition split_ws :: "string \<Rightarrow> string list" where
  "split_ws s = split_go False [] s"

section \<open>Semantic drift measurement\<close>

text \<open>
  A JavaScript \<^verbatim>\<open>Map\<close> that is iterated is an association list in insertion order.
  \<open>map_set\<close> is \<^verbatim>\<open>m.set(k, v)\<close>, which keeps the position of a key that is already present;
  on a map of term counts \<open>map_get\<close> is \<^verbatim>\<open>m.get(k) || 0\<close>.
\<close>

type_synonym term_counts = "(string \<times> nat) list"

definition map_get :: "term_counts \<Rightarrow> string \<Rightarrow> nat" where
  "map_get m k = (case map_of m k of None \<Rightarrow> 0 | Some c \<Rightarrow> c)"

definition map_set :: "('k \<times> 'v) list \<Rightarrow> 'k \<Rightarrow> 'v \<Rightarrow> ('k \<times> 'v) list" where
  "map_set m k v =
     (if k \<in> set (map fst m)
      then map (\<lambda>(k', v'). if k' = k then (k', v) else (k', v')) m
      else m @ [(k, v)])"

text \<open>The alternatives of the six regular expressions of \<^verbatim>\<open>isTechnicalTerm\<close>; each is
  anchored at both ends and case-insensitive.\<close>

definition technicalPatterns :: "string list list" where
  "technicalPatterns =
     [[''api'', ''sdk'', ''cli'', ''gui'', ''ui'', ''ux''],
      [''async'', ''sync'', ''await'', ''promise''],
      [''function'', ''method'', ''class'', ''interface''],
      [''database'', ''query'', ''index'', ''schema''],
      [''agent'', ''protocol'', ''orchestrat''],
      [''semantic'', ''cognitive'', ''drift'', ''overload'']]"

definition isTechnicalTerm :: "string \<Rightarrow> bool" where
  "isTechnicalTerm word = list_ex (\<lambda>alts. toLowerCase word \<in> set alts) technicalPatterns"

definition count_word :: "term_counts \<Rightarrow> string \<Rightarrow> term_counts" where
  "count_word terms word =
     (if isTechnicalTerm word then map_set terms word (map_get terms word + 1) else terms)"

definition extractTerminology :: "string list \<Rightarrow> term_counts" where
  "extractTerminology samples =
     foldl (\<lambda>terms sample. foldl count_word terms (split_ws (toLowerCase sample))) [] samples"

text \<open>\<^verbatim>\<open>new Set(xs)\<close> in iteration order: each element is added unless already present.\<close>

definition set_of_list :: "'a list \<Rightarrow> 'a list" where
  "set_of_list xs = foldl (\<lambda>acc x. if x \<in> set acc then acc else acc @ [x]) [] xs"

definition drift_step :: "term_counts \<Rightarrow> term_counts \<Rightarrow> nat \<times> nat \<Rightarrow> string \<Rightarrow> nat \<times> nat" where
  "drift_step baseline current acc term =
     (let baselineFreq = map_get baseline term;
          currentFreq = map_get current term
      in if baselineFreq > 0 \<or> currentFreq > 0
         then (fst acc + min baselineFreq currentFreq, snd acc + max baselineFreq currentFreq)
         else acc)"

definition calculateDrift :: "term_counts \<Rightarrow> term_counts \<Rightarrow> real" where
  "calculateDrift baseline current =
     (let allTerms = set_of_list (map fst baseline @ map fst current);
          (similarity, total) = foldl (drift_step baseline current) (0, 0) allTerms
      in if total > 0 then 1 - real similarity / real total else 0)"

subsection \<open>Response patterns of a baseline\<close>

fun starts_with :: "string \<Rightarrow> string \<Rightarrow> bool" where
  "starts_with [] s = True"
| "starts_with (p # ps) [] = False"
| "starts_with (p # ps) (c # cs) = (p = c \<and> starts_with ps cs)"

text \<open>\<^verbatim>\<open>s.includes(pat)\<close>\<close>

fun includes_str :: "string \<Rightarrow> string \<Rightarrow> bool" where
  "includes_str pat [] = starts_with pat []"
| "includes_str pat (c # cs) = (starts_with pat (c # cs) \<or> includes_str pat cs)"

text \<open>With the flag \<^verbatim>\<open>m\<close>, \<^verbatim>\<open>^\<close> matches at the start of the string and after each line
  terminator. \<open>line_starts\<close> lists the rest of the string at each of these positions.\<close>

definition is_line_terminator :: "char \<Rightarrow> bool" where
  "is_line_terminator c = (c \<in> set [CHR 0x0A, CHR 0x0D])"

fun after_terminators :: "string \<Rightarrow> string list" where
  "after_terminators [] = []"
| "after_terminators (c # cs) =
     (if is_line_terminator c then cs # after_terminators cs else after_terminators cs)"

definition line_starts :: "string \<Rightarrow> string list" where
  "line_starts s = s # after_terminators s"

definition is_digit :: "char \<Rightarrow> bool" where
  "is_digit c = (c \<in> set ''0123456789'')"

text \<open>\<^verbatim>\<open>/^\d+\./m\<close>, \<^verbatim>\<open>/^[-*]/m\<close> and \<^verbatim>\<open>/^#{1,6}\s/m\<close> at one line start.\<close>

definition numbered_at :: "string \<Rightarrow> bool" where
  "numbered_at s =
     (takeWhile is_digit s \<noteq> [] \<and>
      (case dropWhile is_digit s of [] \<Rightarrow> False | c # _ \<Rightarrow> c = CHR ''.''))"

definition bullet_at :: "string \<Rightarrow> bool" where
  "bullet_at s = (case s of [] \<Rightarrow> False | c # _ \<Rightarrow> c = CHR ''-'' \<or> c = CHR ''*'')"

definition header_at :: "string \<Rightarrow> bool" where
  "header_at s =
     (let n = length (takeWhile (\<lambda>c. c = CHR ''#'') s) in
      1 \<le> n \<and> n \<le> 6 \<and>
      (case dropWhile (\<lambda>c. c = CHR ''#'') s of [] \<Rightarrow> False | c # _ \<Rightarrow> is_space c))"

definition structures_of :: "string \<Rightarrow> string list" where
  "structures_of sample =
     (if includes_str ''```'' sample then [''code_block''] else []) @
     (if list_ex numbered_at (line_starts sample) then [''numbered_list''] else []) @
     (if list_ex bullet_at (line_starts sample) then [''bullet_list''] else []) @
     (if list_ex header_at (line_starts sample) then [''headers''] else [])"

definition identifyStructures :: "string list \<Rightarrow> string list" where
  "identifyStructures samples = set_of_list (concat (map structures_of samples))"

text \<open>\<^verbatim>\<open>words.slice(i, i + 3).join(' ')\<close> for \<^verbatim>\<open>i\<close> from 0 while \<^verbatim>\<open>i < words.length - 2\<close>.\<close>

fun three_word_phrases :: "string list \<Rightarrow> string list" where
  "three_word_phrases (a # b # c # ws) = (a @ '' '' @ b @ '' '' @ c) # three_word_phrases (b # c # ws)"
| "three_word_phrases ws = []"

definition count_phrase :: "term_counts \<Rightarrow> string \<Rightarrow> term_counts" where
  "count_phrase phrases p = map_set phrases (toLowerCase p) (map_get phrases (toLowerCase p) + 1)"

text \<open>The comparator \<^verbatim>\<open>(a, b) => b[1] - a[1]\<close> sorts by falling count; the sort is stable.\<close>

definition extractCommonPhrases :: "string list \<Rightarrow> string list" where
  "extractCommonPhrases samples =
     (let phrases = foldl (\<lambda>acc sample. foldl count_phrase acc (three_word_phrases (split_ws sample)))
                      [] samples
      in map fst (take 10 (sort_key (\<lambda>e. - int (snd e)) (filter (\<lambda>e. snd e > 2) phrases))))"

record Patterns =
  avgLength :: jsnum
  structureTypes :: "string list"
  commonPhrases :: "string list"

definition analyzePatterns :: "string list \<Rightarrow> Patterns" where
  "analyzePatterns samples =
     \<lparr>avgLength = js_mean (map (\<lambda>s. real (length s)) samples),
      structureTypes = identifyStructures samples,
      commonPhrases = extractCommonPhrases samples\<rparr>"

subsection \<open>Baselines and drift\<close>

record Baseline =
  terminology :: term_counts
  patterns :: Patterns
  established :: nat
  sampleCount :: nat

record DriftObservation =
  observedAgent :: string
  drift :: real
  observedAt :: nat

text \<open>The two private fields of the class SemanticDriftMeasurement. \<^verbatim>\<open>Date.now()\<close> is a
  parameter \<open>now\<close> of the operations.\<close>

record DriftMeasurement =
  baseline :: "string \<rightharpoonup> Baseline"
  measurements :: "DriftObservation list"

definition new_DriftMeasurement :: DriftMeasurement where
  "new_DriftMeasurement = \<lparr>baseline = Map.empty, measurements = []\<rparr>"

definition establishBaseline :: "DriftMeasurement \<Rightarrow> nat \<Rightarrow> string \<Rightarrow> string list \<Rightarrow> DriftMeasurement" where
  "establishBaseline s now a samples =
     (let terms = extractTerminology samples;
          pats = analyzePatterns samples
      in s\<lparr>baseline := (baseline s)(a \<mapsto>
             \<lparr>terminology = terms, patterns = pats, established = now,
              sampleCount = length samples\<rparr>)\<rparr>)"

definition measureDrift :: "DriftMeasurement \<Rightarrow> nat \<Rightarrow> string \<Rightarrow> string \<Rightarrow> real \<times> DriftMeasurement" where
  "measureDrift s now a newSample =
     (case baseline s a of
        None \<Rightarrow> (0, s)
      | Some b \<Rightarrow>
          let currentTerms = extractTerminology [newSample];
              d = calculateDrift (terminology b) currentTerms
          in (d, s\<lparr>measurements := measurements s @
                     [\<lparr>observedAgent = a, drift = d, observedAt = now\<rparr>]\<rparr>))"

subsection \<open>The specification's wording of the drift\<close>

text \<open>The words of a list of samples, the number of occurrences of a recognised technical
  term among them, and the set of recognised terms that occur.\<close>

definition words_of :: "string list \<Rightarrow> string list" where
  "words_of samples = concat (map (\<lambda>s. split_ws (toLowerCase s)) samples)"

definition term_freq :: "string list \<Rightarrow> string \<Rightarrow> nat" where
  "term_freq samples t = (if isTechnicalTerm t then count_list (words_of samples) t else 0)"

definition terms_in :: "string list \<Rightarrow> string set" where
  "terms_in samples = Set.filter isTechnicalTerm (set (words_of samples))"

definition drift_spec :: "string list \<Rightarrow> string \<Rightarrow> real" where
  "drift_spec samples sample =
     (let U = terms_in samples \<union> terms_in [sample] in
      if U = {} then 0
      else 1 - real (\<Sum>t\<in>U. min (term_freq samples t) (term_freq [sample] t)) /
               real (\<Sum>t\<in>U. max (term_freq samples t) (term_freq [sample] t)))"

subsection \<open>Example data\<close>

definition scenario_baseline :: "string list" where
  "scenario_baseline = [''the api uses the database schema'', ''database schema design matters'']"

definition scenario_sample :: string where
  "scenario_sample = ''the api schema is consistent''"

section \<open>Experiment runner\<close>

datatype Specialization = Expert | Generalist | HybridSpecialization
datatype ContextWindow = Minimal | Standard | Extended
datatype MemoryStrategy = Ephemeral | Persistent | HybridMemory

record AgentConfiguration =
  config_id :: string
  config_name :: string
  database :: bool
  specialization :: Specialization
  contextWindow :: ContextWindow
  memoryStrategy :: MemoryStrategy
  trainingProtocol :: "string option"

text \<open>
  The interface ExperimentResult, with the fields of its \<^verbatim>\<open>metrics\<close> object inlined. The
  three means are unguarded quotients, so all five are \<open>jsnum\<close>.
\<close>

record ExperimentResult =
  configurationId :: string
  res_semanticConsistency :: jsnum
  res_cognitiveLoad :: jsnum
  res_processingLatency :: jsnum
  res_errorRate :: jsnum
  res_driftVelocity :: jsnum
  res_samples :: nat
  res_duration :: nat
  res_recommendations :: "string list"

record ExperimentRunner =
  driftMeasurement :: DriftMeasurement
  overloadDetector :: Detector
  experiments :: "string \<rightharpoonup> ExperimentResult"

definition new_ExperimentRunner :: ExperimentRunner where
  "new_ExperimentRunner =
     \<lparr>driftMeasurement = new_DriftMeasurement, overloadDetector = new_Detector,
      experiments = Map.empty\<rparr>"

text \<open>
  What one pass of the loop of \<^verbatim>\<open>runExperiment\<close> reads from its environment: the clock
  (\<^verbatim>\<open>Date.now()\<close>), the time the drift measurement took, and the two \<^verbatim>\<open>Math.random()\<close>
  draws. A run is given its start time, one \<open>Tick\<close> for every pass at whose start
  \<^verbatim>\<open>Date.now() - startTime < durationMs\<close> holds, and its end time; the processing delay
  only moves the clock.
\<close>

record Tick =
  tick_now :: nat
  tick_elapsed :: real
  tick_context :: real
  tick_error :: real

record Observations =
  obs_start :: nat
  obs_ticks :: "Tick list"
  obs_end :: nat

definition calculateContextUsage :: "ContextWindow \<Rightarrow> real \<Rightarrow> real" where
  "calculateContextUsage cw rnd =
     (case cw of
        Minimal \<Rightarrow> 0.30 + rnd * 0.20
      | Standard \<Rightarrow> 0.50 + rnd * 0.25
      | Extended \<Rightarrow> 0.70 + rnd * 0.25)"

definition calculateCognitiveLoadForConfig :: "AgentConfiguration \<Rightarrow> CognitiveMetrics \<Rightarrow> real" where
  "calculateCognitiveLoadForConfig config metric =
     (let load0 = contextWindowUsage metric * 0.25;
          load1 = (if database config then load0 - 0.10 else load0);
          load2 = (if specialization config = Expert then load1 - 0.15
                   else if specialization config = Generalist then load1 + 0.10 else load1);
          load3 = (if memoryStrategy config = Persistent then load2 - 0.05
                   else if memoryStrategy config = Ephemeral then load2 + 0.05 else load2);
          load4 = load3 + (1 - semanticConsistency metric) * 0.30;
          load5 = load4 + errorRate metric * 2
      in max 0 (min 1 load5))"

fun total_change :: "real \<Rightarrow> real list \<Rightarrow> real" where
  "total_change acc (a # b # rest) = total_change (acc + \<bar>b - a\<bar>) (b # rest)"
| "total_change acc rest = acc"

definition calculateDriftVelocity :: "real list \<Rightarrow> real" where
  "calculateDriftVelocity ms =
     (if length ms < 2 then 0 else total_change 0 ms / real (length ms - 1))"

definition generateRecommendations :: "AgentConfiguration \<Rightarrow> CognitiveMetrics list \<Rightarrow> string list" where
  "generateRecommendations config ms =
     (let avgConsistency = js_mean (map semanticConsistency ms);
          avgLoad = js_mean (map cognitiveLoadIndex ms)
      in (if js_lt avgConsistency (Fin 0.85)
          then [''Consider implementing persistent memory to improve semantic consistency''] else []) @
         (if js_gt avgLoad (Fin 0.70)
          then [''Cognitive load is high - consider specialization or context reduction''] else []) @
         (if \<not> database config \<and> js_lt avgConsistency (Fin 0.90)
          then [''Database backing could improve consistency by 15-20%''] else []) @
         (if specialization config = Generalist \<and> js_gt avgLoad (Fin 0.60)
          then [''Specialization could reduce cognitive load by 20-30%''] else []) @
         (if contextWindow config = Extended \<and> js_gt avgLoad (Fin 0.65)
          then [''Reducing context window could improve performance''] else []))"

text \<open>
  The loop of \<^verbatim>\<open>runExperiment\<close>. The state is \<^verbatim>\<open>sampleIndex\<close>, the two collaborators and
  the arrays \<^verbatim>\<open>metrics\<close> and \<^verbatim>\<open>driftMeasurements\<close>. It stops when the ticks are used up
  (the duration has passed) or \<^verbatim>\<open>sampleIndex\<close> has reached the number of samples.
\<close>

fun experiment_loop ::
  "AgentConfiguration \<Rightarrow> string list \<Rightarrow> Tick list \<Rightarrow>
   nat \<times> DriftMeasurement \<times> Detector \<times> CognitiveMetrics list \<times> real list \<Rightarrow>
   nat \<times> DriftMeasurement \<times> Detector \<times> CognitiveMetrics list \<times> real list" where
  "experiment_loop config testSamples [] st = st"
| "experiment_loop config testSamples (tick # ticks) (sampleIndex, dm, det, ms, ds) =
     (if sampleIndex < length testSamples
      then
        let sample = testSamples ! sampleIndex;
            (d, dm') = measureDrift dm (tick_now tick) (config_id config) sample;
            metric0 = \<lparr>agentId = config_id config, timestamp = tick_now tick,
                       contextWindowUsage = calculateContextUsage (contextWindow config) (tick_context tick),
                       processingLatency = tick_elapsed tick,
                       errorRate = tick_error tick * 0.05,
                       semanticConsistency = 1 - d,
                       cognitiveLoadIndex = 0\<rparr>;
            metric = metric0\<lparr>cognitiveLoadIndex := calculateCognitiveLoadForConfig config metric0\<rparr>
        in experiment_loop config testSamples ticks
             (sampleIndex + 1, dm', recordMetric det metric, ms @ [metric], ds @ [d])
      else (sampleIndex, dm, det, ms, ds))"

definition runExperiment ::
  "ExperimentRunner \<Rightarrow> AgentConfiguration \<Rightarrow> string list \<Rightarrow> Observations \<Rightarrow>
   ExperimentResult \<times> ExperimentRunner" where
  "runExperiment r config testSamples obs =
     (let dm0 = establishBaseline (driftMeasurement r) (obs_start obs) (config_id config)
                  (take 10 testSamples);
          (sampleIndex, dm, det, ms, ds) =
             experiment_loop config testSamples (obs_ticks obs) (10, dm0, overloadDetector r, [], []);
          result =
            \<lparr>configurationId = config_id config,
             res_semanticConsistency = js_mean (map semanticConsistency ms),
             res_cognitiveLoad = Fin (calculateCognitiveLoad det (config_id config)),
             res_processingLatency = js_mean (map processingLatency ms),
             res_errorRate = js_mean (map errorRate ms),
             res_driftVelocity = Fin (calculateDriftVelocity ds),
             res_samples = sampleIndex - 10,
             res_duration = obs_end obs - obs_start obs,
             res_recommendations = generateRecommendations config ms\<rparr>
      in (result,
          \<lparr>driftMeasurement = dm, overloadDetector = det,
           experiments = (experiments r)(config_id config \<mapsto> result)\<rparr>))"

definition calculateScore :: "ExperimentResult \<Rightarrow> jsnum" where
  "calculateScore result =
     js_add
       (js_add
          (js_add (js_mul (res_semanticConsistency result) (Fin 40))
                  (js_mul (js_sub (Fin 1) (res_cognitiveLoad result)) (Fin 30)))
          (js_mul (js_sub (Fin 1) (js_mul (res_errorRate result) (Fin 10))) (Fin 20)))
       (js_mul (js_div (Fin 1000) (res_processingLatency result)) (Fin 10))"

text \<open>The loop of \<^verbatim>\<open>determineWinner\<close> over the entries of the map, from
  \<^verbatim>\<open>bestScore = -Infinity\<close> and \<^verbatim>\<open>winner = ''\<close>.\<close>

definition winner_step :: "jsnum \<times> string \<Rightarrow> string \<times> ExperimentResult \<Rightarrow> jsnum \<times> string" where
  "winner_step acc entry =
     (let score = calculateScore (snd entry) in
      if js_gt score (fst acc) then (score, fst entry) else acc)"

definition determineWinner :: "(string \<times> ExperimentResult) list \<Rightarrow> string" where
  "determineWinner results = snd (foldl winner_step (NegInf, []) results)"

datatype error = TypeError | NotFound string

record Comparison =
  winner :: string
  comparison :: "(string \<times> ExperimentResult) list"

text \<open>
  \<^verbatim>\<open>compareConfigurations\<close> runs the configurations in turn, each with the observations of
  its own run. The analysis text is not modelled, except that building it reads
  \<^verbatim>\<open>sorted[0][1]\<close> and so throws a TypeError when there is no result.
\<close>

fun run_configs ::
  "ExperimentRunner \<Rightarrow> (AgentConfiguration \<times> Observations) list \<Rightarrow> string list \<Rightarrow>
   (string \<times> ExperimentResult) list \<Rightarrow> (string \<times> ExperimentResult) list \<times> ExperimentRunner" where
  "run_configs r [] testSamples results = (results, r)"
| "run_configs r ((config, obs) # rest) testSamples results =
     (let (result, r') = runExperiment r config testSamples obs
      in run_configs r' rest testSamples (map_set results (config_id config) result))"

definition compareConfigurations ::
  "ExperimentRunner \<Rightarrow> (AgentConfiguration \<times> Observations) list \<Rightarrow> string list \<Rightarrow>
   error + (Comparison \<times> ExperimentRunner)" where
  "compareConfigurations r configs testSamples =
     (let (results, r') = run_configs r configs testSamples [] in
      if results = [] then Inl TypeError
      else Inr (\<lparr>winner = determineWinner results, comparison = results\<rparr>, r'))"

subsection \<open>Example data\<close>

definition config_a :: AgentConfiguration where
  "config_a = \<lparr>config_id = ''a'', config_name = ''A'', database = True, specialization = Expert,
     contextWindow = Standard, memoryStrategy = Persistent, trainingProtocol = None\<rparr>"

definition config_b :: AgentConfiguration where
  "config_b = \<lparr>config_id = ''b'', config_name = ''B'', database = False, specialization = Generalist,
     contextWindow = Extended, memoryStrategy = Ephemeral, trainingProtocol = None\<rparr>"

definition one_tick :: Observations where
  "one_tick = \<lparr>obs_start = 0,
     obs_ticks = [\<lparr>tick_now = 0, tick_elapsed = 0, tick_context = 0.5, tick_error = 0.5\<rparr>],
     obs_end = 0\<rparr>"

section \<open>Experiment scheduler\<close>

text \<open>The fields of ExperimentDesign that the scheduler reads; the descriptive texts
  (hypothesis, methodology, metrics, control variables) are left out.\<close>

record ExperimentDesign =
  design_id :: string
  design_name :: string
  design_duration :: nat
  requiredSamples :: nat
  independentVariable :: string
  dependentVariables :: "string list"

definition EXPERIMENT_CATALOG :: "ExperimentDesign list" where
  "EXPERIMENT_CATALOG =
     [\<lparr>design_id = ''exp-001-database-impact'',
       design_name = ''Database Persistence Impact Study'',
       design_duration = 3600000, requiredSamples = 1000,
       independentVariable = ''database_persistence'',
       dependentVariables = [''semantic_consistency'', ''cognitive_load'']\<rparr>,
      \<lparr>design_id = ''exp-002-specialization-efficiency'',
       design_name = ''Expert vs Generalist Performance Analysis'',
       design_duration = 7200000, requiredSamples = 500,
       independentVariable = ''agent_specialization'',
       dependentVariables = [''cognitive_load'', ''task_success_rate'']\<rparr>,
      \<lparr>design_id = ''exp-003-context-window-optimization'',
       design_name = ''Optimal Context Window Discovery'',
       design_duration = 5400000, requiredSamples = 750,
       independentVariable = ''context_window_size'',
       dependentVariables = [''semantic_consistency'', ''processing_latency'']\<rparr>,
      \<lparr>design_id = ''exp-004-training-protocol-effectiveness'',
       design_name = ''Training Protocol Comparison'',
       design_duration = 10800000, requiredSamples = 1500,
       independentVariable = ''training_protocol'',
       dependentVariables = [''semantic_drift'', ''knowledge_retention'']\<rparr>,
      \<lparr>design_id = ''exp-005-memory-strategy-impact'',
       design_name = ''Memory Strategy Performance Study'',
       design_duration = 7200000, requiredSamples = 1000,
       independentVariable = ''memory_strategy'',
       dependentVariables = [''retrieval_speed'', ''semantic_consistency'']\<rparr>,
      \<lparr>design_id = ''exp-006-cognitive-load-distribution'',
       design_name = ''Multi-Agent Load Balancing Study'',
       design_duration = 14400000, requiredSamples = 2000,
       independentVariable = ''distribution_strategy'',
       dependentVariables = [''throughput'', ''error_rate'']\<rparr>,
      \<lparr>design_id = ''exp-007-error-recovery-patterns'',
       design_name = ''Error Recovery Mechanism Analysis'',
       design_duration = 3600000, requiredSamples = 500,
       independentVariable = ''error_recovery_mechanism'',
       dependentVariables = [''recovery_speed'', ''final_consistency'']\<rparr>,
      \<lparr>design_id = ''exp-008-vocabulary-diversity-impact'',
       design_name = ''Vocabulary Diversity vs Consistency Trade-off'',
       design_duration = 5400000, requiredSamples = 800,
       independentVariable = ''vocabulary_diversity_target'',
       dependentVariables = [''response_quality'', ''semantic_drift'']\<rparr>,
      \<lparr>design_id = ''exp-009-cascade-failure-prevention'',
       design_name = ''Cascade Failure Prevention Study'',
       design_duration = 10800000, requiredSamples = 1200,
       independentVariable = ''overload_threshold'',
       dependentVariables = [''cascade_prevention_rate'', ''false_positive_rate'']\<rparr>,
      \<lparr>design_id = ''exp-010-temporal-consistency'',
       design_name = ''Long-term Semantic Consistency Study'',
       design_duration = 86400000, requiredSamples = 5000,
       independentVariable = ''recalibration_schedule'',
       dependentVariables = [''average_consistency'', ''drift_acceleration'']\<rparr>]"

datatype Priority = High | Normal | Low

record ExperimentOutcome =
  outcome_experimentId :: string
  hypothesisConfirmed :: bool
  keyFindings :: "string list"
  outcome_recommendations :: "string list"
  confidenceLevel :: real

record ActiveExperiment =
  active_experiment :: ExperimentDesign
  active_startTime :: nat

record CompletedExperiment =
  completed_experiment :: ExperimentDesign
  completed_result :: ExperimentOutcome
  completedAt :: nat

record ExperimentScheduler =
  activeExperiments :: "string \<rightharpoonup> ActiveExperiment"
  completedExperiments :: "string \<rightharpoonup> CompletedExperiment"
  experimentQueue :: "ExperimentDesign list"

definition new_ExperimentScheduler :: ExperimentScheduler where
  "new_ExperimentScheduler =
     \<lparr>activeExperiments = Map.empty, completedExperiments = Map.empty, experimentQueue = []\<rparr>"

text \<open>\<^verbatim>\<open>queue.splice(midIndex, 0, experiment)\<close> puts the element at index \<^verbatim>\<open>midIndex\<close>.
  The priority is always passed; the source's default argument is 'normal'.\<close>

definition splice_in :: "nat \<Rightarrow> 'a \<Rightarrow> 'a list \<Rightarrow> 'a list" where
  "splice_in i x xs = take i xs @ x # drop i xs"

definition scheduleExperiment ::
  "ExperimentScheduler \<Rightarrow> string \<Rightarrow> Priority \<Rightarrow> error + ExperimentScheduler" where
  "scheduleExperiment s experimentId priority =
     (case find (\<lambda>e. design_id e = experimentId) EXPERIMENT_CATALOG of
        None \<Rightarrow> Inl (NotFound experimentId)
      | Some experiment \<Rightarrow>
          Inr (s\<lparr>experimentQueue :=
                 (if priority = High then experiment # experimentQueue s
                  else if priority = Low then experimentQueue s @ [experiment]
                  else splice_in (length (experimentQueue s) div 2) experiment (experimentQueue s))\<rparr>))"

definition generateFindings :: "ExperimentDesign \<Rightarrow> string list" where
  "generateFindings design =
     (if design_id design = ''exp-001-database-impact''
      then [''Database persistence improves consistency by 18.3%'',
            ''Latency increase of 12ms is acceptable trade-off'']
      else if design_id design = ''exp-002-specialization-efficiency''
      then [''Expert agents show 28% lower cognitive load'',
            ''Cross-domain performance penalty is 45%'']
      else if design_id design = ''exp-003-context-window-optimization''
      then [''Optimal context usage is 65-70%'',
            ''Beyond 80% shows exponential performance degradation'']
      else [''Significant correlation found between variables'',
            ''Further investigation recommended''])"

text \<open>\<^verbatim>\<open>xs.join(', ')\<close>\<close>

fun join_comma :: "string list \<Rightarrow> string" where
  "join_comma [] = []"
| "join_comma [x] = x"
| "join_comma (x # y # ys) = x @ '', '' @ join_comma (y # ys)"

definition design_recommendations :: "ExperimentDesign \<Rightarrow> string list" where
  "design_recommendations design =
     [''Implement '' @ independentVariable design @ '' optimization'',
      ''Monitor '' @ join_comma (dependentVariables design) @ '' continuously'',
      ''Schedule follow-up experiment for validation'']"

text \<open>What one call of \<^verbatim>\<open>runNextExperiment\<close> reads from its environment: the clock at
  the start and at the end, and the two \<^verbatim>\<open>Math.random()\<close> draws of
  \<^verbatim>\<open>executeExperiment\<close>.\<close>

record RunEnv =
  env_start :: nat
  env_confirm :: real
  env_confidence :: real
  env_end :: nat

definition executeExperiment :: "ExperimentDesign \<Rightarrow> RunEnv \<Rightarrow> ExperimentOutcome" where
  "executeExperiment design env =
     \<lparr>outcome_experimentId = design_id design,
      hypothesisConfirmed = (env_confirm env > 0.3),
      keyFindings = generateFindings design,
      outcome_recommendations = design_recommendations design,
      confidenceLevel = 0.85 + env_confidence env * 0.15\<rparr>"

definition runNextExperiment ::
  "ExperimentScheduler \<Rightarrow> RunEnv \<Rightarrow> ExperimentOutcome option \<times> ExperimentScheduler" where
  "runNextExperiment s env =
     (case experimentQueue s of
        [] \<Rightarrow> (None, s)
      | experiment # rest \<Rightarrow>
          let active = (activeExperiments s)(design_id experiment \<mapsto>
                          \<lparr>active_experiment = experiment, active_startTime = env_start env\<rparr>);
              result = executeExperiment experiment env
          in (Some result,
              \<lparr>activeExperiments = active(design_id experiment := None),
               completedExperiments = (completedExperiments s)(design_id experiment \<mapsto>
                  \<lparr>completed_experiment = experiment, completed_result = result,
                   completedAt = env_end env\<rparr>),
               experimentQueue = rest\<rparr>))"

text \<open>Several \<^verbatim>\<open>scheduleExperiment\<close> calls in a row; the first failure ends the sequence,
  as the exception would.\<close>

fun schedule_all :: "ExperimentScheduler \<Rightarrow> (string \<times> Priority) list \<Rightarrow> error + ExperimentScheduler" where
  "schedule_all s [] = Inr s"
| "schedule_all s ((i, p) # rest) =
     (case scheduleExperiment s i p of Inl e \<Rightarrow> Inl e | Inr s' \<Rightarrow> schedule_all s' rest)"

text \<open>The identifiers of the experiments executed by one \<^verbatim>\<open>runNextExperiment\<close> call per
  environment, in order, until the queue is empty.\<close>

fun executed_ids :: "ExperimentScheduler \<Rightarrow> RunEnv list \<Rightarrow> string list" where
  "executed_ids s [] = []"
| "executed_ids s (env # envs) =
     (case runNextExperiment s env of
        (None, s') \<Rightarrow> []
      | (Some result, s') \<Rightarrow> outcome_experimentId result # executed_ids s' envs)"

subsection \<open>Example data\<close>

definition coin :: RunEnv where
  "coin = \<lparr>env_start = 0, env_confirm = 0.5, env_confidence = 0.5, env_end = 1\<rparr>"

section \<open>Properties of the detector\<close>

subsection \<open>Helper lemmas\<close>

lemma sum_reduce_acc: "foldl (+) (a::real) xs = a + sum_list xs"
  by (induction xs arbitrary: a) simp_all

lemma sum_reduce_sum_list: "sum_reduce xs = sum_list xs"
  by (simp add: sum_reduce_def sum_reduce_acc)

lemma length_slice_last: "length (slice_last n xs) = min n (length xs)"
  by (simp add: slice_last_def)

lemma slice_last_snoc:
  "slice_last (Suc n) (xs @ [x]) = slice_last n xs @ [x]"
  by (simp add: slice_last_def Suc_diff_le)

lemma metrics_updateBaseline: "metrics (updateBaseline d a) = metrics d"
  by (simp add: updateBaseline_def Let_def)

lemma history_updateBaseline: "history (updateBaseline d a) b = history d b"
  by (simp add: history_def metrics_updateBaseline)

lemma history_recordMetric:
  "history (recordMetric d m) a =
     (if a = agentId m
      then (if length (history d a) \<ge> 1000 then tl (history d a @ [m]) else history d a @ [m])
      else history d a)"
  by (simp add: recordMetric_def Let_def history_updateBaseline) (simp add: history_def)

lemma bounded_push:
  "(if length (slice_last 1000 xs) \<ge> 1000 then tl (slice_last 1000 xs @ [x]) else slice_last 1000 xs @ [x])
     = slice_last 1000 (xs @ [x])"
proof (cases "length xs \<ge> 1000")
  case True
  define k where "k = length xs - 1000"
  have k: "k < length xs" "length xs - k = 1000" "Suc (length xs) - 1000 = Suc k"
    using True by (simp_all add: k_def)
  have "tl (drop k xs @ [x]) = tl (drop k (xs @ [x]))" using k by simp
  also have "\<dots> = drop (Suc k) (xs @ [x])" by (simp only: drop_Suc tl_drop)
  finally show ?thesis using k by (simp add: slice_last_def k_def[symmetric])
next
  case False
  then show ?thesis by (simp add: slice_last_def)
qed

lemma history_record_all:
  "history (record_all new_Detector ms) a = slice_last 1000 (filter (\<lambda>m. agentId m = a) ms)"
proof (induction ms rule: rev_induct)
  case Nil
  show ?case by (simp add: record_all_def new_Detector_def history_def slice_last_def)
next
  case (snoc m ms)
  show ?case
  proof (cases "agentId m = a")
    case True
    have "history (record_all new_Detector (ms @ [m])) a =
          (if length (history (record_all new_Detector ms) a) \<ge> 1000
           then tl (history (record_all new_Detector ms) a @ [m])
           else history (record_all new_Detector ms) a @ [m])"
      using True by (simp add: record_all_def history_recordMetric)
    also have "\<dots> = slice_last 1000 (filter (\<lambda>m. agentId m = a) ms @ [m])"
      unfolding snoc by (rule bounded_push)
    finally show ?thesis using True by simp
  next
    case False
    then show ?thesis using snoc by (auto simp add: record_all_def history_recordMetric)
  qed
qed


text \<open>
  Claim C3. Starting from a fresh detector, after any sequence of \<^verbatim>\<open>recordMetric\<close> calls
  the history of every agent holds at most 1000 records, and it is exactly the last 1000
  records of that agent in the order they were recorded. After 1001 records for one agent
  the history has length 1000 and lacks only the oldest record.
\<close>

theorem history_bounded_fifo:
  "length (history (record_all new_Detector ms) a) \<le> 1000 \<and>
   history (record_all new_Detector ms) a = slice_last 1000 (filter (\<lambda>m. agentId m = a) ms) \<and>
   (length ms = 1001 \<and> (\<forall>m \<in> set ms. agentId m = a) \<longrightarrow>
      length (history (record_all new_Detector ms) a) = 1000 \<and>
      history (record_all new_Detector ms) a = tl ms)"
proof -
  have h: "history (record_all new_Detector ms) a = slice_last 1000 (filter (\<lambda>m. agentId m = a) ms)"
    by (rule history_record_all)
  have "length ms = 1001 \<and> (\<forall>m \<in> set ms. agentId m = a) \<longrightarrow>
        slice_last 1000 (filter (\<lambda>m. agentId m = a) ms) = tl ms \<and> length (tl ms) = 1000"
  proof
    assume a: "length ms = 1001 \<and> (\<forall>m \<in> set ms. agentId m = a)"
    then have "filter (\<lambda>m. agentId m = a) ms = ms" by (simp add: filter_id_conv)
    then show "slice_last 1000 (filter (\<lambda>m. agentId m = a) ms) = tl ms \<and> length (tl ms) = 1000"
      using a by (simp add: slice_last_def drop_Suc)
  qed
  then show ?thesis using h by (simp add: length_slice_last)
qed

theorem history_bounded_fifo_witness:
  "length (map sample_metric [0..<1001]) = 1001 \<and>
   list_all (\<lambda>m. agentId m = ''a'') (map sample_metric [0..<1001]) \<and>
   length (history (record_all new_Detector (map sample_metric [0..<1001])) ''a'') = 1000 \<and>
   history (record_all new_Detector (map sample_metric [0..<1001])) ''a'' = map sample_metric [1..<1001]"
proof -
  have 1: "length (map sample_metric [0..<1001]) = 1001" by simp
  have 2: "\<forall>m \<in> set (map sample_metric [0..<1001]). agentId m = ''a''"
    by (simp add: sample_metric_def)
  have 3: "tl (map sample_metric [0..<1001]) = map sample_metric [1..<1001]"
    by (simp add: map_tl upt_conv_Cons[of 0 1001])
  have 4: "length (history (record_all new_Detector (map sample_metric [0..<1001])) ''a'') = 1000 \<and>
           history (record_all new_Detector (map sample_metric [0..<1001])) ''a'' =
             tl (map sample_metric [0..<1001])"
    using history_bounded_fifo[of "map sample_metric [0..<1001]" "''a''"] 1 2 by blast
  have 5: "list_all (\<lambda>m. agentId m = ''a'') (map sample_metric [0..<1001])"
    using 2 by (simp only: list_all_iff)
  show ?thesis unfolding 3[symmetric] using 1 4 5 by blast
qed

lemma normalizeMetric_range: "0 \<le> normalizeMetric v mn mx \<and> normalizeMetric v mn mx \<le> 1"
  by (simp add: normalizeMetric_def)

lemma weighted_sum_range:
  fixes c l e s :: real
  assumes "0 \<le> c" "c \<le> 1" "0 \<le> l" "l \<le> 1" "0 \<le> e" "e \<le> 1" "0 \<le> s" "s \<le> 1"
  shows "0 \<le> c * 0.25 + l * 0.25 + e * 0.30 + s * 0.20 \<and> c * 0.25 + l * 0.25 + e * 0.30 + s * 0.20 \<le> 1"
  using assms by simp

lemma mean_of_spec: "mean_of f ms = mean_spec (map f ms)"
  by (simp add: mean_of_def mean_spec_def sum_reduce_sum_list)

lemma getRecent_empty: "getRecentMetrics d a (Suc n) = [] \<longleftrightarrow> history d a = []"
  by (cases "history d a") (auto simp: getRecentMetrics_def slice_last_def)

text \<open>
  Claim C4. \<^verbatim>\<open>calculateCognitiveLoad\<close> returns a value in [0,1] for every detector state
  and agent; it is 0 for an empty history, and otherwise the weighted sum
  0.25 contextLoad + 0.25 latencyLoad + 0.30 errorLoad + 0.20 driftLoad of the four
  clamped sub-loads over the means of the last 10 records.
\<close>

theorem calculateCognitiveLoad_range:
  "0 \<le> calculateCognitiveLoad d a \<and> calculateCognitiveLoad d a \<le> 1 \<and>
   (history d a = [] \<longrightarrow> calculateCognitiveLoad d a = 0) \<and>
   (history d a \<noteq> [] \<longrightarrow>
      calculateCognitiveLoad d a =
        0.25 * clamp01 (mean_spec (map contextWindowUsage (slice_last 10 (history d a)))) +
        0.25 * normalize_spec (mean_spec (map processingLatency (slice_last 10 (history d a))))
                 (latency (baseline_or_default d a)) (latency (baseline_or_default d a) * 3) +
        0.30 * normalize_spec (mean_spec (map errorRate (slice_last 10 (history d a)))) 0 0.20 +
        0.20 * normalize_spec (1 - mean_spec (map semanticConsistency (slice_last 10 (history d a)))) 0 0.50)"
proof -
  have e: "getRecentMetrics d a 10 = [] \<longleftrightarrow> history d a = []"
    using getRecent_empty[of d a 9] by simp
  have r: "0 \<le> calculateCognitiveLoad d a \<and> calculateCognitiveLoad d a \<le> 1"
  proof (cases "history d a = []")
    case True
    then show ?thesis using e by (simp add: calculateCognitiveLoad_def)
  next
    case False
    define c where "c = normalizeMetric (mean_of contextWindowUsage (getRecentMetrics d a 10)) 0 1"
    define l where "l = normalizeMetric (mean_of processingLatency (getRecentMetrics d a 10))
                          (latency (baseline_or_default d a)) (latency (baseline_or_default d a) * 3)"
    define er where "er = normalizeMetric (mean_of errorRate (getRecentMetrics d a 10)) 0 0.20"
    define s where "s = normalizeMetric (1 - mean_of semanticConsistency (getRecentMetrics d a 10)) 0 0.50"
    have eq: "calculateCognitiveLoad d a = c * 0.25 + l * 0.25 + er * 0.30 + s * 0.20"
      using False e by (simp add: calculateCognitiveLoad_def Let_def c_def l_def er_def s_def)
    have "0 \<le> c" "c \<le> 1" "0 \<le> l" "l \<le> 1" "0 \<le> er" "er \<le> 1" "0 \<le> s" "s \<le> 1"
      unfolding c_def l_def er_def s_def using normalizeMetric_range by blast+
    then show ?thesis unfolding eq by (rule weighted_sum_range)
  qed
  have z: "history d a = [] \<longrightarrow> calculateCognitiveLoad d a = 0"
    using e by (simp add: calculateCognitiveLoad_def)
  have f: "history d a \<noteq> [] \<longrightarrow>
      calculateCognitiveLoad d a =
        0.25 * clamp01 (mean_spec (map contextWindowUsage (slice_last 10 (history d a)))) +
        0.25 * normalize_spec (mean_spec (map processingLatency (slice_last 10 (history d a))))
                 (latency (baseline_or_default d a)) (latency (baseline_or_default d a) * 3) +
        0.30 * normalize_spec (mean_spec (map errorRate (slice_last 10 (history d a)))) 0 0.20 +
        0.20 * normalize_spec (1 - mean_spec (map semanticConsistency (slice_last 10 (history d a)))) 0 0.50"
    using e
    by (simp add: calculateCognitiveLoad_def Let_def mean_of_spec normalizeMetric_def
        normalize_spec_def clamp01_def getRecentMetrics_def)
  show ?thesis using r z f by blast
qed

lemma history_new: "history new_Detector a = []"
  by (simp add: history_def new_Detector_def)

lemma baselines_updateBaseline_short:
  "length (history d a) < 20 \<Longrightarrow> updateBaseline d a = d"
  by (simp add: updateBaseline_def)

lemma baselines_record_first:
  "baselines (recordMetric new_Detector m) = Map.empty"
  by (simp add: recordMetric_def Let_def history_new updateBaseline_def)
     (simp add: history_def new_Detector_def)

theorem calculateCognitiveLoad_range_witness:
  "history new_Detector ''a'' = [] \<and> calculateCognitiveLoad new_Detector ''a'' = 0 \<and>
   history (recordMetric new_Detector loaded_metric) ''a'' \<noteq> [] \<and>
   calculateCognitiveLoad (recordMetric new_Detector loaded_metric) ''a'' = 1 / 2"
proof -
  have h: "history (recordMetric new_Detector loaded_metric) ''a'' = [loaded_metric]"
    by (simp add: history_recordMetric history_new loaded_metric_def)
  have b: "baseline_or_default (recordMetric new_Detector loaded_metric) ''a'' = createDefaultBaseline"
    by (simp add: baseline_or_default_def baselines_record_first)
  have v: "0.25 * clamp01 (mean_spec (map contextWindowUsage (slice_last 10 [loaded_metric]))) +
        0.25 * normalize_spec (mean_spec (map processingLatency (slice_last 10 [loaded_metric])))
                 (latency createDefaultBaseline) (latency createDefaultBaseline * 3) +
        0.30 * normalize_spec (mean_spec (map errorRate (slice_last 10 [loaded_metric]))) 0 0.20 +
        0.20 * normalize_spec (1 - mean_spec (map semanticConsistency (slice_last 10 [loaded_metric]))) 0 0.50
        = 1 / 2"
    by (simp add: slice_last_def mean_spec_def loaded_metric_def clamp01_def normalize_spec_def
        createDefaultBaseline_def latency_baselineMs_def)
  show ?thesis
    using calculateCognitiveLoad_range[of new_Detector "''a''"]
      calculateCognitiveLoad_range[of "recordMetric new_Detector loaded_metric" "''a''"]
    unfolding h b v by (simp add: history_new)
qed

subsection \<open>Overload detection\<close>

lemma fst_threshold_check:
  "fst (threshold_check v c w cm wm acc) = sev_max (fst acc) (level v c w)"
  by (cases acc; cases "fst acc") (auto simp: threshold_check_def level_def)

lemma getRecent5_empty: "getRecentMetrics d a 5 = [] \<longleftrightarrow> history d a = []"
  using getRecent_empty[of d a 4] by simp

lemma severity_detectOverload:
  "history d a \<noteq> [] \<Longrightarrow>
   severity (detectOverload d a) = foldl sev_max SevNone (check_levels d a)"
  by (simp add: detectOverload_def Let_def getRecent5_empty check_levels_def
      split_beta fst_threshold_check)

lemma detectOverload_empty:
  "history d a = [] \<Longrightarrow>
   detectOverload d a = \<lparr>isOverloaded = False, severity = SevNone, factors = [], recommendations = []\<rparr>"
  by (simp add: detectOverload_def getRecent5_empty)

lemma sev_max_Critical [simp]: "sev_max s Critical = Critical" "sev_max Critical s = Critical"
  by (cases s; simp)+

lemma foldl_sev_max_Critical_start: "foldl sev_max Critical ls = Critical"
  by (induction ls) simp_all

lemma foldl_sev_max_Critical: "Critical \<in> set ls \<Longrightarrow> foldl sev_max s ls = Critical"
  by (induction ls arbitrary: s) (auto simp: foldl_sev_max_Critical_start)

text \<open>
  Claim C1 (as amended). The severity returned by \<^verbatim>\<open>detectOverload\<close> is the maximum of
  the levels reached by the four checks: a warning branch assigns 'warning' only while the
  severity is still 'none', so once a check has crossed its critical cutoff the result is
  'critical' whatever the later checks reach.
\<close>

theorem detectOverload_severity_max:
  "severity (detectOverload d a) =
     (if history d a = [] then SevNone else foldl sev_max SevNone (check_levels d a)) \<and>
   (history d a \<noteq> [] \<and> Critical \<in> set (check_levels d a) \<longrightarrow>
      severity (detectOverload d a) = Critical)"
  by (simp add: severity_detectOverload detectOverload_empty foldl_sev_max_Critical)

lemma history_record_first: "history (recordMetric new_Detector m) (agentId m) = [m]"
  by (simp add: history_recordMetric history_new)

lemma baseline_record_first:
  "baseline_or_default (recordMetric new_Detector m) a = createDefaultBaseline"
  by (simp add: baseline_or_default_def baselines_record_first)

lemma check_levels_hot:
  "check_levels (recordMetric new_Detector hot_context_metric) ''a'' =
     [Critical, Warning, SevNone, SevNone]"
proof -
  have h: "history (recordMetric new_Detector hot_context_metric) ''a'' = [hot_context_metric]"
    using history_record_first[of hot_context_metric] by (simp add: hot_context_metric_def)
  show ?thesis
    unfolding check_levels_def getRecentMetrics_def h baseline_record_first
    by (simp add: slice_last_def mean_of_def sum_reduce_def level_def hot_context_metric_def
        createDefaultBaseline_def latency_baselineMs_def latency_criticalMultiplier_def
        latency_warningMultiplier_def contextWindow_critical_def contextWindow_warning_def
        errorRate_critical_def errorRate_warning_def semanticDrift_critical_def
        semanticDrift_warning_def)
qed

theorem detectOverload_severity_max_witness:
  "history (recordMetric new_Detector hot_context_metric) ''a'' \<noteq> [] \<and>
   check_levels (recordMetric new_Detector hot_context_metric) ''a'' =
     [Critical, Warning, SevNone, SevNone] \<and>
   severity (detectOverload (recordMetric new_Detector hot_context_metric) ''a'') = Critical"
proof -
  have h: "history (recordMetric new_Detector hot_context_metric) ''a'' \<noteq> []"
    using history_record_first[of hot_context_metric] by (simp add: hot_context_metric_def)
  show ?thesis
    using detectOverload_severity_max[of "recordMetric new_Detector hot_context_metric" "''a''"] h
    by (simp add: check_levels_hot)
qed

text \<open>
  Claim C1 as stated fails: there is no history on which an earlier check is critical, a
  later check reaches only its warning cutoff, and the returned severity is 'warning'.
\<close>

theorem detectOverload_reset_counterexample:
  "\<not> (\<exists>d a i j. history d a \<noteq> [] \<and> i < j \<and> j < 4 \<and>
         check_levels d a ! i = Critical \<and> check_levels d a ! j = Warning \<and>
         severity (detectOverload d a) = Warning)"
proof
  assume "\<exists>d a i j. history d a \<noteq> [] \<and> i < j \<and> j < 4 \<and>
         check_levels d a ! i = Critical \<and> check_levels d a ! j = Warning \<and>
         severity (detectOverload d a) = Warning"
  then obtain d a i j where ne: "history d a \<noteq> []" and ij: "i < j" "j < 4"
    and c: "check_levels d a ! i = Critical" and w: "severity (detectOverload d a) = Warning"
    by blast
  have "length (check_levels d a) = 4" by (simp add: check_levels_def Let_def)
  then have "Critical \<in> set (check_levels d a)"
    using ij c by (metis less_trans nth_mem)
  then have "severity (detectOverload d a) = Critical"
    using ne by (simp add: severity_detectOverload foldl_sev_max_Critical)
  then show False using w by simp
qed

text \<open>
  Claim C10. The flag \<^verbatim>\<open>isOverloaded\<close> is true exactly when the severity is not 'none',
  so a warning alone sets it; an agent without recorded metrics gets the all-clear result
  with no factors and no recommendations.
\<close>

theorem detectOverload_flag:
  "isOverloaded (detectOverload d a) = (severity (detectOverload d a) \<noteq> SevNone) \<and>
   (severity (detectOverload d a) = Warning \<longrightarrow> isOverloaded (detectOverload d a)) \<and>
   (history d a = [] \<longrightarrow>
      detectOverload d a =
        \<lparr>isOverloaded = False, severity = SevNone, factors = [], recommendations = []\<rparr>)"
proof -
  have 1: "isOverloaded (detectOverload d a) = (severity (detectOverload d a) \<noteq> SevNone)"
    by (simp add: detectOverload_def Let_def split_beta)
  show ?thesis using 1 detectOverload_empty by auto
qed

lemma detectOverload_warm:
  "detectOverload (recordMetric new_Detector warm_context_metric) ''a'' =
     \<lparr>isOverloaded = True, severity = Warning, factors = [''High context window usage''],
      recommendations = [''Consider context optimization'']\<rparr>"
proof -
  have h: "history (recordMetric new_Detector warm_context_metric) ''a'' = [warm_context_metric]"
    using history_record_first[of warm_context_metric] by (simp add: warm_context_metric_def)
  show ?thesis
    unfolding detectOverload_def getRecentMetrics_def h baseline_record_first
    by (simp add: slice_last_def mean_of_def sum_reduce_def threshold_check_def warm_context_metric_def
        createDefaultBaseline_def latency_baselineMs_def latency_criticalMultiplier_def
        latency_warningMultiplier_def contextWindow_critical_def contextWindow_warning_def
        errorRate_critical_def errorRate_warning_def semanticDrift_critical_def
        semanticDrift_warning_def)
qed

theorem detectOverload_flag_witness:
  "history new_Detector ''a'' = [] \<and>
   detectOverload new_Detector ''a'' =
     \<lparr>isOverloaded = False, severity = SevNone, factors = [], recommendations = []\<rparr> \<and>
   severity (detectOverload (recordMetric new_Detector warm_context_metric) ''a'') = Warning \<and>
   isOverloaded (detectOverload (recordMetric new_Detector warm_context_metric) ''a'')"
  using detectOverload_flag[of new_Detector "''a''"]
    detectOverload_flag[of "recordMetric new_Detector warm_context_metric" "''a''"]
  by (simp add: history_new detectOverload_warm)

subsection \<open>Baseline recalibration\<close>

lemma baseline_of_means:
  "\<lparr>latency = mean_of processingLatency sel, contextUsage = mean_of contextWindowUsage sel,
    consistency = mean_of semanticConsistency sel\<rparr> = baseline_of sel"
  by (simp add: baseline_of_def mean_of_spec)

lemma baselines_updateBaseline:
  "baselines (updateBaseline d a) b =
     (if b = a \<and> length (history d a) \<ge> 20 \<and> length (slice_last 50 (filter isHealthy (history d a))) > 10
      then Some (baseline_of (slice_last 50 (filter isHealthy (history d a))))
      else baselines d b)"
  by (simp add: updateBaseline_def Let_def baseline_of_means)

lemma baselines_recordMetric:
  "baselines (recordMetric d m) b =
     (if b = agentId m \<and> length (history (recordMetric d m) (agentId m)) \<ge> 20 \<and>
         length (slice_last 50 (filter isHealthy (history (recordMetric d m) (agentId m)))) > 10
      then Some (baseline_of (slice_last 50 (filter isHealthy (history (recordMetric d m) (agentId m)))))
      else baselines d b)"
proof -
  define d1 where "d1 = d\<lparr>metrics := (metrics d)(agentId m \<mapsto>
      (if length (history d (agentId m) @ [m]) > 1000 then tl (history d (agentId m) @ [m])
       else history d (agentId m) @ [m]))\<rparr>"
  have r: "recordMetric d m = updateBaseline d1 (agentId m)"
    by (simp add: recordMetric_def Let_def d1_def)
  have h: "history (recordMetric d m) (agentId m) = history d1 (agentId m)"
    by (simp add: r history_updateBaseline)
  have b: "baselines d1 = baselines d" by (simp add: d1_def)
  show ?thesis unfolding h unfolding r baselines_updateBaseline b by simp
qed

text \<open>
  Claim C5 (as amended). After \<^verbatim>\<open>recordMetric\<close>, when the agent's history holds at least
  20 records, the derived baseline becomes the per-field means over the most recent 50
  healthy records of the whole retained history (the history is filtered first, then the
  last 50 of the healthy records are taken), and only when that selection has more than 10
  members; otherwise the stored baseline stays as it was. Other agents' baselines are not
  touched, and while no baseline is stored the default (1000 ms, 0.40, 0.90) is used.
\<close>

theorem recordMetric_baseline:
  "baselines (recordMetric d m) (agentId m) =
     (if length (history (recordMetric d m) (agentId m)) \<ge> 20 \<and>
         length (slice_last 50 (filter isHealthy (history (recordMetric d m) (agentId m)))) > 10
      then Some (baseline_of (slice_last 50 (filter isHealthy (history (recordMetric d m) (agentId m)))))
      else baselines d (agentId m)) \<and>
   (b \<noteq> agentId m \<longrightarrow> baselines (recordMetric d m) b = baselines d b) \<and>
   (baselines d b = None \<longrightarrow>
      baseline_or_default d b = \<lparr>latency = 1000, contextUsage = 0.40, consistency = 0.90\<rparr>)"
proof -
  have 1: "baselines (recordMetric d m) (agentId m) =
     (if length (history (recordMetric d m) (agentId m)) \<ge> 20 \<and>
         length (slice_last 50 (filter isHealthy (history (recordMetric d m) (agentId m)))) > 10
      then Some (baseline_of (slice_last 50 (filter isHealthy (history (recordMetric d m) (agentId m)))))
      else baselines d (agentId m))"
    by (subst baselines_recordMetric) simp
  have 2: "b \<noteq> agentId m \<longrightarrow> baselines (recordMetric d m) b = baselines d b"
    by (subst baselines_recordMetric) simp
  have 3: "baselines d b = None \<longrightarrow>
      baseline_or_default d b = \<lparr>latency = 1000, contextUsage = 0.40, consistency = 0.90\<rparr>"
    by (simp add: baseline_or_default_def createDefaultBaseline_def latency_baselineMs_def)
  show ?thesis using 1 2 3 by blast
qed

lemma record_all_snoc: "record_all d (ms @ [m]) = recordMetric (record_all d ms) m"
  by (simp add: record_all_def)

lemma recovery_run_snoc:
  "recovery_run = (replicate 11 fast_metric @ replicate 39 failing_metric @ replicate 10 slow_metric) @ [slow_metric]"
  using replicate_add[of 10 1 slow_metric] by (simp add: recovery_run_def)

lemma length_recovery: "length recovery_run = 61"
  by (simp add: recovery_run_def)

lemma agentId_recovery: "filter (\<lambda>m. agentId m = ''a'') recovery_run = recovery_run"
  by (simp add: recovery_run_def fast_metric_def failing_metric_def slow_metric_def)

lemma history_recovery: "history (record_all new_Detector recovery_run) ''a'' = recovery_run"
  by (simp add: history_record_all agentId_recovery) (simp add: slice_last_def recovery_run_def)

lemma healthy_examples:
  "isHealthy fast_metric" "isHealthy slow_metric" "\<not> isHealthy failing_metric"
  by (simp_all add: isHealthy_def fast_metric_def slow_metric_def failing_metric_def)

lemma code_selection_recovery:
  "slice_last 50 (filter isHealthy recovery_run) = replicate 11 fast_metric @ replicate 11 slow_metric"
  by (simp add: recovery_run_def healthy_examples slice_last_def)

lemma spec_selection_recovery:
  "healthy_of_recent_spec recovery_run = replicate 11 slow_metric"
  by (simp add: healthy_of_recent_spec_def recovery_run_def healthy_examples slice_last_def)

lemma baseline_recovery:
  "baselines (record_all new_Detector recovery_run) ''a'' =
     Some \<lparr>latency = 300, contextUsage = 0.5, consistency = 0.95\<rparr>"
proof -
  have a: "agentId slow_metric = ''a''" by (simp add: slow_metric_def)
  have r: "record_all new_Detector recovery_run =
           recordMetric (record_all new_Detector
             (replicate 11 fast_metric @ replicate 39 failing_metric @ replicate 10 slow_metric)) slow_metric"
    by (simp only: recovery_run_snoc record_all_snoc)
  have h: "history (recordMetric (record_all new_Detector
             (replicate 11 fast_metric @ replicate 39 failing_metric @ replicate 10 slow_metric)) slow_metric) ''a''
           = recovery_run"
    using history_recovery by (simp only: r)
  have v: "baseline_of (replicate 11 fast_metric @ replicate 11 slow_metric) =
           \<lparr>latency = 300, contextUsage = 0.5, consistency = 0.95\<rparr>"
    by (simp add: baseline_of_def mean_spec_def fast_metric_def slow_metric_def sum_list_replicate)
  show ?thesis
    unfolding r
    by (subst baselines_recordMetric) (simp add: a h code_selection_recovery v length_recovery)
qed

text \<open>
  Claim C5 as stated fails. After the 61 records of \<open>recovery_run\<close> the healthy subset of
  the most recent 50 records is the 11 slow records (mean latency 500), but the stored
  baseline also averages the 11 older fast records (mean latency 300).
\<close>

theorem recordMetric_baseline_counterexample:
  "length (history (record_all new_Detector recovery_run) ''a'') \<ge> 20 \<and>
   length (healthy_of_recent_spec (history (record_all new_Detector recovery_run) ''a'')) > 10 \<and>
   latency (baseline_of (healthy_of_recent_spec (history (record_all new_Detector recovery_run) ''a''))) = 500 \<and>
   map_option latency (baselines (record_all new_Detector recovery_run) ''a'') = Some 300"
  unfolding history_recovery spec_selection_recovery baseline_recovery
  by (simp add: length_recovery baseline_of_def mean_spec_def slow_metric_def sum_list_replicate)

theorem recordMetric_baseline_witness:
  "''b'' \<noteq> agentId fast_metric \<and>
   baselines (recordMetric new_Detector fast_metric) ''b'' = None \<and>
   baseline_or_default (recordMetric new_Detector fast_metric) ''b'' =
     \<lparr>latency = 1000, contextUsage = 0.40, consistency = 0.90\<rparr> \<and>
   baselines (recordMetric new_Detector fast_metric) (agentId fast_metric) = None"
proof -
  have n: "''b'' \<noteq> agentId fast_metric" by (simp add: fast_metric_def)
  have b0: "baselines new_Detector = Map.empty" by (simp add: new_Detector_def)
  have l: "\<not> length (history (recordMetric new_Detector fast_metric) (agentId fast_metric)) \<ge> 20"
    by (simp add: history_record_first)
  show ?thesis
    using recordMetric_baseline[of new_Detector fast_metric "''b''"]
          recordMetric_baseline[of "recordMetric new_Detector fast_metric" fast_metric "''b''"]
          n l
    by (simp add: b0)
qed

section \<open>Properties of the drift measurement\<close>

lemma map_of_update_in_place:
  "map_of (map (\<lambda>(k', v'). if k' = k then (k', v) else (k', v')) m) t =
     (if t = k then (if k \<in> fst ` set m then Some v else None) else map_of m t)"
  by (induction m) (auto split: if_splits)

lemma map_get_map_set: "map_get (map_set m k v) t = (if t = k then v else map_get m t)"
  by (auto simp: map_get_def map_set_def map_of_update_in_place
      map_of_eq_None_iff[THEN iffD2] split: option.splits)

lemma keys_map_set: "fst ` set (map_set m k v) = insert k (fst ` set m)"
  by (auto simp: map_set_def split: if_splits) force+

lemma map_get_Nil: "map_get [] t = 0"
  by (simp add: map_get_def)

lemma map_get_count_word:
  "map_get (count_word m w) t =
     map_get m t + (if isTechnicalTerm t \<and> t = w then 1 else 0)"
  by (auto simp: count_word_def map_get_map_set)

lemma map_get_count_words:
  "map_get (foldl count_word m ws) t =
     map_get m t + (if isTechnicalTerm t then count_list ws t else 0)"
  by (induction ws arbitrary: m) (auto simp: map_get_count_word)

lemma keys_count_words:
  "fst ` set (foldl count_word m ws) = fst ` set m \<union> Set.filter isTechnicalTerm (set ws)"
  by (induction ws arbitrary: m) (auto simp: count_word_def keys_map_set)

lemma extract_fold:
  "foldl (\<lambda>terms sample. foldl count_word terms (split_ws (toLowerCase sample))) m samples =
   foldl count_word m (words_of samples)"
  by (induction samples arbitrary: m) (simp_all add: words_of_def)

lemma extractTerminology_words: "extractTerminology samples = foldl count_word [] (words_of samples)"
  by (simp add: extractTerminology_def extract_fold)

lemma map_get_extract: "map_get (extractTerminology samples) t = term_freq samples t"
  by (simp add: extractTerminology_words map_get_count_words term_freq_def map_get_Nil)

lemma keys_extract: "fst ` set (extractTerminology samples) = terms_in samples"
  by (simp add: extractTerminology_words keys_count_words terms_in_def)

lemma term_freq_pos: "t \<in> terms_in samples \<Longrightarrow> term_freq samples t > 0"
  using count_list_0_iff[of "words_of samples" t] by (auto simp: terms_in_def term_freq_def)

lemma set_of_list_fold:
  "distinct acc \<Longrightarrow>
   distinct (foldl (\<lambda>acc x. if x \<in> set acc then acc else acc @ [x]) acc xs) \<and>
   set (foldl (\<lambda>acc x. if x \<in> set acc then acc else acc @ [x]) acc xs) = set acc \<union> set xs"
  by (induction xs arbitrary: acc) (auto simp:)

lemma set_of_list_props: "distinct (set_of_list xs)" "set (set_of_list xs) = set xs"
  using set_of_list_fold[of "[]" xs] by (simp_all add: set_of_list_def)

lemma foldl_drift_step:
  "foldl (drift_step B C) acc ts =
     (fst acc + sum_list (map (\<lambda>t. min (map_get B t) (map_get C t)) ts),
      snd acc + sum_list (map (\<lambda>t. max (map_get B t) (map_get C t)) ts))"
  by (induction ts arbitrary: acc) (auto simp: drift_step_def Let_def)

lemma calculateDrift_sums:
  "calculateDrift B C =
     (let U = fst ` set B \<union> fst ` set C;
          total = (\<Sum>t\<in>U. max (map_get B t) (map_get C t)) in
      if total > 0
      then 1 - real (\<Sum>t\<in>U. min (map_get B t) (map_get C t)) / real total
      else 0)"
proof -
  have s: "set (set_of_list (map fst B @ map fst C)) = fst ` set B \<union> fst ` set C"
    by (simp add: set_of_list_props)
  have "sum_list (map f (set_of_list (map fst B @ map fst C))) = sum f (fst ` set B \<union> fst ` set C)"
    for f :: "string \<Rightarrow> nat"
    using sum_list_distinct_conv_sum_set[OF set_of_list_props(1), of f "map fst B @ map fst C"] s
    by simp
  then show ?thesis
    by (simp add: calculateDrift_def Let_def foldl_drift_step)
qed

lemma calculateDrift_extract:
  "calculateDrift (extractTerminology samples) (extractTerminology [sample]) = drift_spec samples sample"
proof -
  define U where "U = terms_in samples \<union> terms_in [sample]"
  have fin: "finite U" by (simp add: U_def terms_in_def)
  have pos: "(\<Sum>t\<in>U. max (term_freq samples t) (term_freq [sample] t)) > 0 \<longleftrightarrow> U \<noteq> {}"
  proof
    assume "(\<Sum>t\<in>U. max (term_freq samples t) (term_freq [sample] t)) > 0"
    then show "U \<noteq> {}" by auto
  next
    assume "U \<noteq> {}"
    then obtain t where t: "t \<in> U" by blast
    then have "max (term_freq samples t) (term_freq [sample] t) > 0"
      using term_freq_pos[of t samples] term_freq_pos[of t "[sample]"] by (auto simp: U_def)
    then show "(\<Sum>t\<in>U. max (term_freq samples t) (term_freq [sample] t)) > 0"
      using fin t by (meson sum_pos2 zero_le)
  qed
  show ?thesis
    unfolding calculateDrift_sums keys_extract map_get_extract drift_spec_def U_def[symmetric] Let_def
    using pos by simp
qed

lemma measureDrift_Some:
  "baseline s a = Some b \<Longrightarrow>
   fst (measureDrift s now a sample) = calculateDrift (terminology b) (extractTerminology [sample])"
  by (simp add: measureDrift_def Let_def)

lemma baseline_establishBaseline:
  "baseline (establishBaseline s now a samples) a' =
     (if a' = a
      then Some \<lparr>terminology = extractTerminology samples, patterns = analyzePatterns samples,
                 established = now, sampleCount = length samples\<rparr>
      else baseline s a')"
  by (simp add: establishBaseline_def Let_def)

lemma scenario_terms:
  "extractTerminology scenario_baseline = [(''api'', 1), (''database'', 2), (''schema'', 2)]"
  "extractTerminology [scenario_sample] = [(''api'', 1), (''schema'', 1)]"
  by (code_simp+)

lemma scenario_drift:
  "calculateDrift [(''api'', 1), (''database'', 2), (''schema'', 2)] [(''api'', 1), (''schema'', 1)] = 0.6"
  by code_simp

text \<open>
  Claim C2. When the agent's baseline holds the terminology extracted from \<open>samples\<close>,
  \<^verbatim>\<open>measureDrift\<close> returns 1 minus the sum of the minima over the sum of the maxima of
  the baseline and sample frequencies, taken over the recognised technical terms that
  occur in either, and 0 when no recognised term occurs. On the specification's scenario
  it returns 0.6.
\<close>

theorem measureDrift_formula:
  "(baseline s a = Some b \<and> terminology b = extractTerminology samples \<longrightarrow>
      fst (measureDrift s now a sample) = drift_spec samples sample) \<and>
   fst (measureDrift (establishBaseline new_DriftMeasurement t0 ''agent'' scenario_baseline)
          t1 ''agent'' scenario_sample) = 0.6"
proof -
  have 1: "baseline s a = Some b \<and> terminology b = extractTerminology samples \<longrightarrow>
      fst (measureDrift s now a sample) = drift_spec samples sample"
    by (simp add: measureDrift_Some calculateDrift_extract)
  have 2: "fst (measureDrift (establishBaseline new_DriftMeasurement t0 ''agent'' scenario_baseline)
          t1 ''agent'' scenario_sample) = 0.6"
    by (simp only: measureDrift_Some[OF baseline_establishBaseline[of _ _ "''agent''" _ "''agent''", simplified]]
          Baseline.simps scenario_terms scenario_drift)
  show ?thesis using 1 2 by blast
qed

lemma plain_terms: "terms_in [''hello world''] = {}" "terms_in [''nothing here''] = {}"
  by (code_simp+)

theorem measureDrift_formula_witness:
  "baseline (establishBaseline new_DriftMeasurement 0 ''agent'' [''hello world'']) ''agent'' =
     Some \<lparr>terminology = extractTerminology [''hello world''],
           patterns = analyzePatterns [''hello world''], established = 0, sampleCount = 1\<rparr> \<and>
   fst (measureDrift (establishBaseline new_DriftMeasurement 0 ''agent'' [''hello world''])
          1 ''agent'' ''nothing here'') = 0"
proof -
  have b: "baseline (establishBaseline new_DriftMeasurement 0 ''agent'' [''hello world'']) ''agent'' =
     Some \<lparr>terminology = extractTerminology [''hello world''],
           patterns = analyzePatterns [''hello world''], established = 0, sampleCount = 1\<rparr>"
    by (simp add: baseline_establishBaseline)
  have d: "drift_spec [''hello world''] ''nothing here'' = 0"
    by (simp add: drift_spec_def plain_terms)
  show ?thesis
    using measureDrift_formula[of "establishBaseline new_DriftMeasurement 0 ''agent'' [''hello world'']"
        "''agent''"
        "\<lparr>terminology = extractTerminology [''hello world''],
           patterns = analyzePatterns [''hello world''], established = 0, sampleCount = 1\<rparr>"
        "[''hello world'']" 1 "''nothing here''"] b d
    by simp
qed

text \<open>
  Claim C7 (as amended). \<^verbatim>\<open>establishBaseline\<close> has no failure mode: for every sample
  list, the empty one included, it stores the extracted terminology profile (with the
  response patterns, the time and the sample count) as the agent's baseline, replacing
  any earlier baseline of that agent and leaving the other agents and the measurement
  log alone.
\<close>

theorem establishBaseline_total:
  "baseline (establishBaseline s now a samples) a =
     Some \<lparr>terminology = extractTerminology samples, patterns = analyzePatterns samples,
           established = now, sampleCount = length samples\<rparr> \<and>
   (\<forall>t. map_get (extractTerminology samples) t = term_freq samples t) \<and>
   establishBaseline (establishBaseline s earlier a old_samples) now a samples =
     establishBaseline s now a samples \<and>
   (a' \<noteq> a \<longrightarrow> baseline (establishBaseline s now a samples) a' = baseline s a') \<and>
   measurements (establishBaseline s now a samples) = measurements s"
  by (simp add: baseline_establishBaseline map_get_extract) (simp add: establishBaseline_def Let_def)

theorem establishBaseline_total_witness:
  "''b'' \<noteq> ''a'' \<and>
   baseline (establishBaseline new_DriftMeasurement 5 ''a'' scenario_baseline) ''b'' = None \<and>
   map_option terminology (baseline (establishBaseline new_DriftMeasurement 5 ''a'' scenario_baseline) ''a'') =
     Some [(''api'', 1), (''database'', 2), (''schema'', 2)]"
  using establishBaseline_total[of new_DriftMeasurement 5 "''a''" scenario_baseline _ _ "''b''"]
  by (simp add: scenario_terms new_DriftMeasurement_def)

text \<open>
  Claim C7 as stated fails on the empty sample list: the call completes and stores a
  baseline with no terms, a NaN average length and a sample count of 0.
\<close>

theorem establishBaseline_empty_counterexample:
  "baseline (establishBaseline new_DriftMeasurement 0 ''a'' []) ''a'' =
     Some \<lparr>terminology = [],
           patterns = \<lparr>avgLength = NaN, structureTypes = [], commonPhrases = []\<rparr>,
           established = 0, sampleCount = 0\<rparr>"
  by (simp add: baseline_establishBaseline extractTerminology_def analyzePatterns_def js_mean_def
      sum_reduce_def identifyStructures_def set_of_list_def extractCommonPhrases_def)

section \<open>Properties of the experiment runner\<close>

lemma js_mean_Nil: "js_mean [] = NaN"
  by (simp add: js_mean_def sum_reduce_def)

lemma experiment_loop_no_samples:
  "length testSamples \<le> sampleIndex \<Longrightarrow>
   experiment_loop config testSamples ticks (sampleIndex, dm, det, ms, ds) =
     (sampleIndex, dm, det, ms, ds)"
  by (cases ticks) simp_all

lemma runExperiment_no_samples:
  assumes "length testSamples \<le> 10"
  shows "fst (runExperiment r config testSamples obs) =
     \<lparr>configurationId = config_id config,
      res_semanticConsistency = NaN,
      res_cognitiveLoad = Fin (calculateCognitiveLoad (overloadDetector r) (config_id config)),
      res_processingLatency = NaN,
      res_errorRate = NaN,
      res_driftVelocity = Fin 0,
      res_samples = 0,
      res_duration = obs_end obs - obs_start obs,
      res_recommendations = []\<rparr>"
  using assms
  by (simp add: runExperiment_def Let_def experiment_loop_no_samples js_mean_Nil
      calculateDriftVelocity_def generateRecommendations_def js_lt_def)

lemma load_new_Detector: "calculateCognitiveLoad new_Detector a = 0"
  by (simp add: calculateCognitiveLoad_def getRecentMetrics_def history_new slice_last_def)

text \<open>
  Claim C6, evaluated on the code. A run over two samples (at most 10, so all of them go
  to the baseline) processes no sample, and the three unguarded means of its result are
  NaN, not 0; the guarded aggregates next to them (drift velocity, cognitive load) are 0.
\<close>

theorem runExperiment_empty_means_NaN:
  "fst (runExperiment new_ExperimentRunner config_a scenario_baseline one_tick) =
     \<lparr>configurationId = ''a'',
      res_semanticConsistency = NaN,
      res_cognitiveLoad = Fin 0,
      res_processingLatency = NaN,
      res_errorRate = NaN,
      res_driftVelocity = Fin 0,
      res_samples = 0,
      res_duration = 0,
      res_recommendations = []\<rparr>"
proof -
  have "length scenario_baseline \<le> 10" by (simp add: scenario_baseline_def)
  then show ?thesis
    by (simp add: runExperiment_no_samples new_ExperimentRunner_def load_new_Detector
        config_a_def one_tick_def)
qed

lemma calculateScore_NaN:
  "res_semanticConsistency result = NaN \<Longrightarrow> calculateScore result = NaN"
  by (simp add: calculateScore_def)

text \<open>
  Claim C8, evaluated on the code. Comparing two configurations over two samples gives
  both of them the score NaN, and the winner returned is the empty string, which is the
  identifier of neither configuration.
\<close>

theorem compareConfigurations_no_winner:
  "map_sum id (\<lambda>(c, r). (winner c, map fst (comparison c), map (calculateScore \<circ> snd) (comparison c)))
     (compareConfigurations new_ExperimentRunner [(config_a, one_tick), (config_b, one_tick)]
        scenario_baseline) =
   Inr ([], [''a'', ''b''], [NaN, NaN])"
proof -
  have l: "length scenario_baseline \<le> 10" by (simp add: scenario_baseline_def)
  have ra: "\<And>r. fst (runExperiment r config_a scenario_baseline one_tick) =
     \<lparr>configurationId = ''a'',
      res_semanticConsistency = NaN,
      res_cognitiveLoad = Fin (calculateCognitiveLoad (overloadDetector r) ''a''),
      res_processingLatency = NaN,
      res_errorRate = NaN,
      res_driftVelocity = Fin 0,
      res_samples = 0,
      res_duration = 0,
      res_recommendations = []\<rparr>"
    using runExperiment_no_samples[OF l, of _ config_a one_tick]
    by (simp add: config_a_def one_tick_def)
  have rb: "\<And>r. fst (runExperiment r config_b scenario_baseline one_tick) =
     \<lparr>configurationId = ''b'',
      res_semanticConsistency = NaN,
      res_cognitiveLoad = Fin (calculateCognitiveLoad (overloadDetector r) ''b''),
      res_processingLatency = NaN,
      res_errorRate = NaN,
      res_driftVelocity = Fin 0,
      res_samples = 0,
      res_duration = 0,
      res_recommendations = []\<rparr>"
    using runExperiment_no_samples[OF l, of _ config_b one_tick]
    by (simp add: config_b_def one_tick_def)
  have ida: "config_id config_a = ''a''" "config_id config_b = ''b''"
    by (simp_all add: config_a_def config_b_def)
  show ?thesis
    by (simp add: compareConfigurations_def split_beta Let_def ra rb ida map_set_def
        determineWinner_def winner_step_def calculateScore_NaN)
qed

subsection \<open>The winner on comparable scores\<close>

text \<open>A score is comparable when it is greater than \<^verbatim>\<open>-Infinity\<close>, that is, finite or
  \<^verbatim>\<open>+Infinity\<close>. On comparable scores \<^verbatim>\<open>determineWinner\<close> returns the first entry of
  maximal score.\<close>

lemma js_gt_irrefl: "\<not> js_gt a a"
  by (cases a) simp_all

lemma js_gt_trans: "js_gt a b \<Longrightarrow> js_gt b c \<Longrightarrow> js_gt a c"
  by (cases a; cases b; cases c) simp_all

lemma js_gt_above: "js_gt a b \<Longrightarrow> \<not> js_gt c b \<Longrightarrow> js_gt c NegInf \<Longrightarrow> js_gt a c"
  by (cases a; cases b; cases c) simp_all

lemma js_gt_not_above: "js_gt a b \<Longrightarrow> \<not> js_gt c b \<Longrightarrow> \<not> js_gt c a"
  by (cases a; cases b; cases c) simp_all

lemma winner_fold_first_max:
  assumes "results \<noteq> []"
    and "\<forall>e \<in> set results. js_gt (calculateScore (snd e)) NegInf"
  shows "\<exists>i < length results.
           foldl winner_step (NegInf, w0) results =
             (calculateScore (snd (results ! i)), fst (results ! i)) \<and>
           (\<forall>j < length results.
              \<not> js_gt (calculateScore (snd (results ! j))) (calculateScore (snd (results ! i)))) \<and>
           (\<forall>j < i. js_gt (calculateScore (snd (results ! i))) (calculateScore (snd (results ! j))))"
  using assms
proof (induction results rule: rev_induct)
  case Nil
  then show ?case by simp
next
  case (snoc e rs)
  let ?sc = "\<lambda>x. calculateScore (snd x)"
  have ce: "js_gt (?sc e) NegInf" using snoc.prems by simp
  show ?case
  proof (cases "rs = []")
    case True
    have "foldl winner_step (NegInf, w0) [e] = (?sc e, fst e)"
      using ce by (simp add: winner_step_def Let_def)
    then show ?thesis using True by (simp add: js_gt_irrefl)
  next
    case False
    have crs: "\<forall>x \<in> set rs. js_gt (?sc x) NegInf" using snoc.prems by simp
    from snoc.IH[OF False crs] obtain i where i: "i < length rs"
      and acc: "foldl winner_step (NegInf, w0) rs = (?sc (rs ! i), fst (rs ! i))"
      and mx: "\<forall>j < length rs. \<not> js_gt (?sc (rs ! j)) (?sc (rs ! i))"
      and fst: "\<forall>j < i. js_gt (?sc (rs ! i)) (?sc (rs ! j))"
      by blast
    show ?thesis
    proof (cases "js_gt (?sc e) (?sc (rs ! i))")
      case True
      have step: "foldl winner_step (NegInf, w0) (rs @ [e]) = (?sc e, fst e)"
        using True acc by (simp add: winner_step_def Let_def)
      have a: "\<forall>j < length (rs @ [e]). \<not> js_gt (?sc ((rs @ [e]) ! j)) (?sc e)"
      proof (intro allI impI)
        fix j assume "j < length (rs @ [e])"
        then consider "j < length rs" | "j = length rs" by (auto simp: less_Suc_eq)
        then show "\<not> js_gt (?sc ((rs @ [e]) ! j)) (?sc e)"
        proof cases
          case 1
          then have "\<not> js_gt (?sc (rs ! j)) (?sc (rs ! i))" using mx by simp
          then have "\<not> js_gt (?sc (rs ! j)) (?sc e)" using True by (rule js_gt_not_above[rotated])
          then show ?thesis using 1 by (simp add: nth_append)
        next
          case 2
          then show ?thesis by (simp add: js_gt_irrefl)
        qed
      qed
      have b: "\<forall>j < length rs. js_gt (?sc e) (?sc ((rs @ [e]) ! j))"
      proof (intro allI impI)
        fix j assume j: "j < length rs"
        then have c: "js_gt (?sc (rs ! j)) NegInf" using crs by simp
        have "\<not> js_gt (?sc (rs ! j)) (?sc (rs ! i))" using mx j by simp
        then have "js_gt (?sc e) (?sc (rs ! j))" using True c js_gt_above by blast
        then show "js_gt (?sc e) (?sc ((rs @ [e]) ! j))" using j by (simp add: nth_append)
      qed
      show ?thesis
        by (rule exI[of _ "length rs"]) (use step a b in simp)
    next
      case False
      have step: "foldl winner_step (NegInf, w0) (rs @ [e]) = (?sc (rs ! i), fst (rs ! i))"
        using False acc by (simp add: winner_step_def Let_def)
      have a: "\<forall>j < length (rs @ [e]). \<not> js_gt (?sc ((rs @ [e]) ! j)) (?sc (rs ! i))"
      proof (intro allI impI)
        fix j assume "j < length (rs @ [e])"
        then consider "j < length rs" | "j = length rs" by (auto simp: less_Suc_eq)
        then show "\<not> js_gt (?sc ((rs @ [e]) ! j)) (?sc (rs ! i))"
          using mx False by cases (simp_all add: nth_append)
      qed
      have b: "\<forall>j < i. js_gt (?sc (rs ! i)) (?sc ((rs @ [e]) ! j))"
        using fst i by (simp add: nth_append)
      show ?thesis
        by (rule exI[of _ i]) (use step a b i in \<open>simp add: nth_append\<close>)
    qed
  qed
qed

lemma determineWinner_first_max:
  assumes "results \<noteq> []"
    and "\<forall>e \<in> set results. js_gt (calculateScore (snd e)) NegInf"
  shows "\<exists>i < length results.
           determineWinner results = fst (results ! i) \<and>
           (\<forall>j < length results.
              \<not> js_gt (calculateScore (snd (results ! j))) (calculateScore (snd (results ! i)))) \<and>
           (\<forall>j < i. js_gt (calculateScore (snd (results ! i))) (calculateScore (snd (results ! j))))"
  using winner_fold_first_max[OF assms, of "[]"] by (auto simp: determineWinner_def)

subsection \<open>Runs that process a sample have comparable scores\<close>

lemma experiment_loop_metrics:
  "\<exists>new. fst (snd (snd (snd (experiment_loop config testSamples ticks (i, dm, det, ms, ds))))) = ms @ new \<and>
         processingLatency ` set new \<subseteq> tick_elapsed ` set ticks \<and>
         (ticks \<noteq> [] \<and> i < length testSamples \<longrightarrow> new \<noteq> [])"
proof (induction ticks arbitrary: i dm det ms ds)
  case Nil
  show ?case by simp
next
  case (Cons tick ticks)
  show ?case
  proof (cases "i < length testSamples")
    case False
    then show ?thesis by simp
  next
    case True
    obtain d dm' where md: "measureDrift dm (tick_now tick) (config_id config) (testSamples ! i) = (d, dm')"
      by (cases "measureDrift dm (tick_now tick) (config_id config) (testSamples ! i)")
    define metric0 where "metric0 = \<lparr>agentId = config_id config, timestamp = tick_now tick,
                       contextWindowUsage = calculateContextUsage (contextWindow config) (tick_context tick),
                       processingLatency = tick_elapsed tick,
                       errorRate = tick_error tick * 0.05,
                       semanticConsistency = 1 - d,
                       cognitiveLoadIndex = 0\<rparr>"
    define metric where "metric = metric0\<lparr>cognitiveLoadIndex := calculateCognitiveLoadForConfig config metric0\<rparr>"
    have step: "experiment_loop config testSamples (tick # ticks) (i, dm, det, ms, ds) =
          experiment_loop config testSamples ticks
             (i + 1, dm', recordMetric det metric, ms @ [metric], ds @ [d])"
      using True md by (simp add: Let_def metric_def metric0_def)
    from Cons.IH[of "i + 1" dm' "recordMetric det metric" "ms @ [metric]" "ds @ [d]"]
    obtain new where new:
      "fst (snd (snd (snd (experiment_loop config testSamples ticks
             (i + 1, dm', recordMetric det metric, ms @ [metric], ds @ [d]))))) = (ms @ [metric]) @ new"
      "processingLatency ` set new \<subseteq> tick_elapsed ` set ticks"
      by blast
    have lat: "processingLatency metric = tick_elapsed tick"
      by (simp add: metric_def metric0_def)
    show ?thesis
      by (rule exI[of _ "metric # new"]) (use step new lat in auto)
  qed
qed

lemma js_mean_nonempty: "xs \<noteq> [] \<Longrightarrow> js_mean xs = Fin (sum_list xs / real (length xs))"
  by (simp add: js_mean_def sum_reduce_sum_list)

lemma calculateScore_comparable:
  assumes "res_semanticConsistency r = Fin c" "res_cognitiveLoad r = Fin l"
    "res_errorRate r = Fin e" "res_processingLatency r = Fin p" "p \<ge> 0"
  shows "js_gt (calculateScore r) NegInf"
  using assms by (simp add: calculateScore_def js_sub_def signed_inf_def)

lemma runExperiment_comparable:
  assumes "10 < length testSamples" "obs_ticks obs \<noteq> []"
    and "\<forall>t \<in> set (obs_ticks obs). tick_elapsed t \<ge> 0"
  shows "js_gt (calculateScore (fst (runExperiment r config testSamples obs))) NegInf"
proof -
  define dm0 where "dm0 = establishBaseline (driftMeasurement r) (obs_start obs) (config_id config)
                  (take 10 testSamples)"
  define out where "out = experiment_loop config testSamples (obs_ticks obs)
                            (10, dm0, overloadDetector r, [], [])"
  define ms where "ms = fst (snd (snd (snd out)))"
  from experiment_loop_metrics[of config testSamples "obs_ticks obs" 10 dm0 "overloadDetector r" "[]" "[]"]
  have ne: "ms \<noteq> []" and lat: "processingLatency ` set ms \<subseteq> tick_elapsed ` set (obs_ticks obs)"
    using assms(1,2) by (auto simp: ms_def out_def)
  have nonneg: "\<forall>x \<in> set (map processingLatency ms). x \<ge> 0"
    using lat assms(3) by auto
  have p: "sum_list (map processingLatency ms) / real (length ms) \<ge> 0"
    using sum_list_nonneg[of "map processingLatency ms"] nonneg by simp
  have res: "fst (runExperiment r config testSamples obs) =
     \<lparr>configurationId = config_id config,
      res_semanticConsistency = js_mean (map semanticConsistency ms),
      res_cognitiveLoad = Fin (calculateCognitiveLoad (fst (snd (snd out))) (config_id config)),
      res_processingLatency = js_mean (map processingLatency ms),
      res_errorRate = js_mean (map errorRate ms),
      res_driftVelocity = Fin (calculateDriftVelocity (snd (snd (snd (snd out))))),
      res_samples = fst out - 10,
      res_duration = obs_end obs - obs_start obs,
      res_recommendations = generateRecommendations config ms\<rparr>"
    by (simp add: runExperiment_def Let_def split_beta ms_def out_def dm0_def)
  show ?thesis
    unfolding res
    by (rule calculateScore_comparable[where p = "sum_list (map processingLatency ms) / real (length ms)"])
       (use ne p in \<open>simp_all add: js_mean_nonempty\<close>)
qed

lemma set_map_set: "set (map_set m k v) \<subseteq> insert (k, v) (set m)"
  by (auto simp: map_set_def split: if_splits)

lemma map_set_not_Nil: "map_set m k v \<noteq> []"
  by (cases m) (auto simp: map_set_def)

lemma run_configs_comparable:
  assumes "10 < length testSamples"
    and "\<forall>c \<in> set configs. obs_ticks (snd c) \<noteq> [] \<and> (\<forall>t \<in> set (obs_ticks (snd c)). tick_elapsed t \<ge> 0)"
    and "\<forall>e \<in> set results. js_gt (calculateScore (snd e)) NegInf"
  shows "\<forall>e \<in> set (fst (run_configs r configs testSamples results)).
           js_gt (calculateScore (snd e)) NegInf"
  using assms(2,3)
proof (induction configs arbitrary: r results)
  case Nil
  then show ?case by simp
next
  case (Cons c configs)
  obtain config obs where c: "c = (config, obs)" by (cases c)
  obtain result r' where rr: "runExperiment r config testSamples obs = (result, r')"
    by (cases "runExperiment r config testSamples obs")
  have "js_gt (calculateScore result) NegInf"
    using runExperiment_comparable[OF assms(1), of obs r config] Cons.prems(1) c rr by simp
  then have "\<forall>e \<in> set (map_set results (config_id config) result). js_gt (calculateScore (snd e)) NegInf"
    using Cons.prems(2) set_map_set[of results "config_id config" result] by auto
  then show ?case
    using Cons.IH[of "map_set results (config_id config) result" r'] Cons.prems(1) c rr by simp
qed

lemma run_configs_not_Nil:
  "configs \<noteq> [] \<or> results \<noteq> [] \<Longrightarrow> fst (run_configs r configs testSamples results) \<noteq> []"
proof (induction configs arbitrary: r results)
  case Nil
  then show ?case by simp
next
  case (Cons c configs)
  obtain config obs where c: "c = (config, obs)" by (cases c)
  have "map_set results (config_id config) (fst (runExperiment r config testSamples obs)) \<noteq> []"
    by (rule map_set_not_Nil)
  then have "fst (run_configs (snd (runExperiment r config testSamples obs)) configs testSamples
                (map_set results (config_id config) (fst (runExperiment r config testSamples obs)))) \<noteq> []"
    by (intro Cons.IH) simp
  then show ?case by (simp add: c split_beta)
qed

text \<open>
  When every configuration processes at least one sample (more than 10 samples, a first
  pass within the duration, no negative latency), \<^verbatim>\<open>compareConfigurations\<close> returns the
  first-inserted result of maximal score.
\<close>

lemma compareConfigurations_first_max:
  assumes "configs \<noteq> []" "10 < length testSamples"
    and "\<forall>c \<in> set configs. obs_ticks (snd c) \<noteq> [] \<and> (\<forall>t \<in> set (obs_ticks (snd c)). tick_elapsed t \<ge> 0)"
  shows "\<exists>cmp r' i. compareConfigurations r configs testSamples = Inr (cmp, r') \<and>
           i < length (comparison cmp) \<and> winner cmp = fst (comparison cmp ! i) \<and>
           (\<forall>j < length (comparison cmp).
              \<not> js_gt (calculateScore (snd (comparison cmp ! j))) (calculateScore (snd (comparison cmp ! i)))) \<and>
           (\<forall>j < i. js_gt (calculateScore (snd (comparison cmp ! i))) (calculateScore (snd (comparison cmp ! j))))"
proof -
  define results where "results = fst (run_configs r configs testSamples [])"
  have ne: "results \<noteq> []" using assms(1) run_configs_not_Nil by (simp add: results_def)
  have cmp: "\<forall>e \<in> set results. js_gt (calculateScore (snd e)) NegInf"
    unfolding results_def by (rule run_configs_comparable[OF assms(2,3)]) simp
  have eq: "compareConfigurations r configs testSamples =
        Inr (\<lparr>winner = determineWinner results, comparison = results\<rparr>,
             snd (run_configs r configs testSamples []))"
    using ne by (simp add: compareConfigurations_def split_beta results_def)
  from determineWinner_first_max[OF ne cmp] obtain i where
    "i < length results" "determineWinner results = fst (results ! i)"
    "\<forall>j < length results. \<not> js_gt (calculateScore (snd (results ! j))) (calculateScore (snd (results ! i)))"
    "\<forall>j < i. js_gt (calculateScore (snd (results ! i))) (calculateScore (snd (results ! j)))"
    by blast
  then show ?thesis unfolding eq by (intro exI[of _ "\<lparr>winner = determineWinner results, comparison = results\<rparr>"] exI[of _ "snd (run_configs r configs testSamples [])"] exI[of _ i]) simp
qed

section \<open>Properties of the scheduler\<close>

lemma executed_ids_queue:
  "length (experimentQueue s) \<le> length envs \<Longrightarrow>
   executed_ids s envs = map design_id (experimentQueue s)"
proof (induction envs arbitrary: s)
  case Nil
  then show ?case by simp
next
  case (Cons env envs)
  show ?case
  proof (cases "experimentQueue s")
    case Nil
    then show ?thesis by (simp add: runNextExperiment_def)
  next
    case (Cons e rest)
    then have "length rest \<le> length envs" using Cons.prems by simp
    then show ?thesis
      using Cons.IH Cons
      by (simp add: runNextExperiment_def Let_def executeExperiment_def)
  qed
qed

lemma scheduleExperiment_found:
  "find (\<lambda>e. design_id e = i) EXPERIMENT_CATALOG = Some e \<Longrightarrow>
   scheduleExperiment s i p =
     Inr (s\<lparr>experimentQueue :=
            (case p of High \<Rightarrow> e # experimentQueue s
             | Low \<Rightarrow> experimentQueue s @ [e]
             | Normal \<Rightarrow> take (length (experimentQueue s) div 2) (experimentQueue s) @ e #
                          drop (length (experimentQueue s) div 2) (experimentQueue s))\<rparr>)"
  by (cases p) (simp_all add: scheduleExperiment_def splice_in_def)

lemma find_design_id: "find (\<lambda>e. design_id e = i) EXPERIMENT_CATALOG = Some e \<Longrightarrow> design_id e = i"
  by (auto simp: find_Some_iff)

lemma queue_scheduleExperiment:
  assumes "find (\<lambda>e. design_id e = i) EXPERIMENT_CATALOG = Some e"
  shows "scheduleExperiment s i High = Inr (s\<lparr>experimentQueue := e # experimentQueue s\<rparr>)"
    and "scheduleExperiment s i Low = Inr (s\<lparr>experimentQueue := experimentQueue s @ [e]\<rparr>)"
    and "scheduleExperiment s i Normal =
           Inr (s\<lparr>experimentQueue :=
                  splice_in (length (experimentQueue s) div 2) e (experimentQueue s)\<rparr>)"
  using assms by (simp_all add: scheduleExperiment_def)

lemma in_splice_in: "x \<in> set (splice_in i x xs)" "set xs \<subseteq> set (splice_in i y xs)"
proof -
  show "x \<in> set (splice_in i x xs)" by (simp add: splice_in_def)
  have "set xs = set (take i xs @ drop i xs)" by simp
  then show "set xs \<subseteq> set (splice_in i y xs)" by (auto simp: splice_in_def simp del: append_take_drop_id)
qed

lemma length_splice_in: "length (splice_in i x xs) = Suc (length xs)"
  by (simp add: splice_in_def)

text \<open>
  Claim C9. For an identifier found in the catalog, \<^verbatim>\<open>scheduleExperiment\<close> puts the
  design at the front of the queue for 'high', at the back for 'low', and at index
  floor(length / 2) for 'normal'; \<^verbatim>\<open>runNextExperiment\<close> executes the front entry. So a
  'high' entry scheduled after two 'normal' entries is executed first, before both, and a
  'low' entry scheduled after a 'normal' entry is executed last, after it.
\<close>

theorem scheduleExperiment_positions:
  "(find (\<lambda>e. design_id e = i) EXPERIMENT_CATALOG = Some e \<longrightarrow>
      scheduleExperiment s i High = Inr (s\<lparr>experimentQueue := e # experimentQueue s\<rparr>) \<and>
      scheduleExperiment s i Low = Inr (s\<lparr>experimentQueue := experimentQueue s @ [e]\<rparr>) \<and>
      scheduleExperiment s i Normal =
        Inr (s\<lparr>experimentQueue :=
               take (length (experimentQueue s) div 2) (experimentQueue s) @ e #
               drop (length (experimentQueue s) div 2) (experimentQueue s)\<rparr>) \<and>
      fst (runNextExperiment (s\<lparr>experimentQueue := e # experimentQueue s\<rparr>) env) =
        Some (executeExperiment e env)) \<and>
   (find (\<lambda>e. design_id e = ia) EXPERIMENT_CATALOG = Some a \<and>
    find (\<lambda>e. design_id e = ib) EXPERIMENT_CATALOG = Some b \<and>
    find (\<lambda>e. design_id e = ic) EXPERIMENT_CATALOG = Some c \<and>
    length (experimentQueue s) + 3 \<le> length envs \<longrightarrow>
      (\<exists>s' later. schedule_all s [(ia, Normal), (ib, Normal), (ic, High)] = Inr s' \<and>
         executed_ids s' envs = ic # later \<and> ia \<in> set later \<and> ib \<in> set later)) \<and>
   (find (\<lambda>e. design_id e = ia) EXPERIMENT_CATALOG = Some a \<and>
    find (\<lambda>e. design_id e = il) EXPERIMENT_CATALOG = Some l \<and>
    length (experimentQueue s) + 2 \<le> length envs \<longrightarrow>
      (\<exists>s' earlier. schedule_all s [(ia, Normal), (il, Low)] = Inr s' \<and>
         executed_ids s' envs = earlier @ [il] \<and> ia \<in> set earlier))"
proof (intro conjI impI)
  assume f: "find (\<lambda>e. design_id e = i) EXPERIMENT_CATALOG = Some e"
  show "scheduleExperiment s i High = Inr (s\<lparr>experimentQueue := e # experimentQueue s\<rparr>)"
    by (rule queue_scheduleExperiment(1)[OF f])
  show "scheduleExperiment s i Low = Inr (s\<lparr>experimentQueue := experimentQueue s @ [e]\<rparr>)"
    by (rule queue_scheduleExperiment(2)[OF f])
  show "scheduleExperiment s i Normal =
        Inr (s\<lparr>experimentQueue :=
               take (length (experimentQueue s) div 2) (experimentQueue s) @ e #
               drop (length (experimentQueue s) div 2) (experimentQueue s)\<rparr>)"
    using queue_scheduleExperiment(3)[OF f] by (simp add: splice_in_def)
  show "fst (runNextExperiment (s\<lparr>experimentQueue := e # experimentQueue s\<rparr>) env) =
        Some (executeExperiment e env)"
    by (simp add: runNextExperiment_def Let_def)
next
  assume h: "find (\<lambda>e. design_id e = ia) EXPERIMENT_CATALOG = Some a \<and>
    find (\<lambda>e. design_id e = ib) EXPERIMENT_CATALOG = Some b \<and>
    find (\<lambda>e. design_id e = ic) EXPERIMENT_CATALOG = Some c \<and>
    length (experimentQueue s) + 3 \<le> length envs"
  define q where "q = experimentQueue s"
  define q1 where "q1 = splice_in (length q div 2) a q"
  define q2 where "q2 = splice_in (length q1 div 2) b q1"
  define s' where "s' = s\<lparr>experimentQueue := c # q2\<rparr>"
  have sched: "schedule_all s [(ia, Normal), (ib, Normal), (ic, High)] = Inr s'"
    using h by (simp add: queue_scheduleExperiment s'_def q2_def q1_def q_def)
  have len: "length (experimentQueue s') \<le> length envs"
    using h by (simp add: s'_def q2_def q1_def q_def length_splice_in)
  have ids: "design_id a = ia" "design_id b = ib" "design_id c = ic"
    using h find_design_id by blast+
  have ex: "executed_ids s' envs = ic # map design_id q2"
    using executed_ids_queue[OF len] by (simp add: s'_def ids)
  have "a \<in> set q2" "b \<in> set q2"
    using in_splice_in(1)[of a "length q div 2" q] in_splice_in(1)[of b "length q1 div 2" q1]
      in_splice_in(2)[of q1 "length q1 div 2" b]
    by (auto simp: q2_def q1_def)
  then have "ia \<in> set (map design_id q2)" "ib \<in> set (map design_id q2)"
    using ids by force+
  then show "\<exists>s' later. schedule_all s [(ia, Normal), (ib, Normal), (ic, High)] = Inr s' \<and>
         executed_ids s' envs = ic # later \<and> ia \<in> set later \<and> ib \<in> set later"
    using sched ex by blast
next
  assume h: "find (\<lambda>e. design_id e = ia) EXPERIMENT_CATALOG = Some a \<and>
    find (\<lambda>e. design_id e = il) EXPERIMENT_CATALOG = Some l \<and>
    length (experimentQueue s) + 2 \<le> length envs"
  define q where "q = experimentQueue s"
  define q1 where "q1 = splice_in (length q div 2) a q"
  define s' where "s' = s\<lparr>experimentQueue := q1 @ [l]\<rparr>"
  have sched: "schedule_all s [(ia, Normal), (il, Low)] = Inr s'"
    using h by (simp add: queue_scheduleExperiment s'_def q1_def q_def)
  have len: "length (experimentQueue s') \<le> length envs"
    using h by (simp add: s'_def q1_def q_def length_splice_in)
  have ids: "design_id a = ia" "design_id l = il"
    using h find_design_id by blast+
  have ex: "executed_ids s' envs = map design_id q1 @ [il]"
    using executed_ids_queue[OF len] by (simp add: s'_def ids)
  have "a \<in> set q1" by (simp add: q1_def in_splice_in)
  then have "ia \<in> set (map design_id q1)" using ids by force
  then show "\<exists>s' earlier. schedule_all s [(ia, Normal), (il, Low)] = Inr s' \<and>
         executed_ids s' envs = earlier @ [il] \<and> ia \<in> set earlier"
    using sched ex by blast
qed

lemma catalog_lookup:
  "find (\<lambda>e. design_id e = ''exp-001-database-impact'') EXPERIMENT_CATALOG = Some (EXPERIMENT_CATALOG ! 0)"
  "find (\<lambda>e. design_id e = ''exp-003-context-window-optimization'') EXPERIMENT_CATALOG = Some (EXPERIMENT_CATALOG ! 2)"
  "find (\<lambda>e. design_id e = ''exp-004-training-protocol-effectiveness'') EXPERIMENT_CATALOG = Some (EXPERIMENT_CATALOG ! 3)"
  "find (\<lambda>e. design_id e = ''exp-010-temporal-consistency'') EXPERIMENT_CATALOG = Some (EXPERIMENT_CATALOG ! 9)"
  by (simp_all add: EXPERIMENT_CATALOG_def)

lemma schedule_examples:
  "map_sum id (map design_id \<circ> experimentQueue)
     (schedule_all new_ExperimentScheduler
        [(''exp-003-context-window-optimization'', Normal),
         (''exp-004-training-protocol-effectiveness'', Normal),
         (''exp-001-database-impact'', High)]) =
   Inr [''exp-001-database-impact'', ''exp-004-training-protocol-effectiveness'',
        ''exp-003-context-window-optimization'']"
  "map_sum id (map design_id \<circ> experimentQueue)
     (schedule_all new_ExperimentScheduler
        [(''exp-003-context-window-optimization'', Normal),
         (''exp-010-temporal-consistency'', Low)]) =
   Inr [''exp-003-context-window-optimization'', ''exp-010-temporal-consistency'']"
  by (simp_all add: queue_scheduleExperiment[OF catalog_lookup(1)]
      queue_scheduleExperiment[OF catalog_lookup(2)] queue_scheduleExperiment[OF catalog_lookup(3)]
      queue_scheduleExperiment[OF catalog_lookup(4)] new_ExperimentScheduler_def splice_in_def
      EXPERIMENT_CATALOG_def)

theorem scheduleExperiment_positions_witness:
  "find (\<lambda>e. design_id e = ''exp-003-context-window-optimization'') EXPERIMENT_CATALOG =
     Some (EXPERIMENT_CATALOG ! 2) \<and>
   find (\<lambda>e. design_id e = ''exp-004-training-protocol-effectiveness'') EXPERIMENT_CATALOG =
     Some (EXPERIMENT_CATALOG ! 3) \<and>
   find (\<lambda>e. design_id e = ''exp-001-database-impact'') EXPERIMENT_CATALOG =
     Some (EXPERIMENT_CATALOG ! 0) \<and>
   find (\<lambda>e. design_id e = ''exp-010-temporal-consistency'') EXPERIMENT_CATALOG =
     Some (EXPERIMENT_CATALOG ! 9) \<and>
   length (experimentQueue new_ExperimentScheduler) + 3 \<le> length [coin, coin, coin] \<and>
   (\<exists>s' later.
      schedule_all new_ExperimentScheduler
        [(''exp-003-context-window-optimization'', Normal),
         (''exp-004-training-protocol-effectiveness'', Normal),
         (''exp-001-database-impact'', High)] = Inr s' \<and>
      executed_ids s' [coin, coin, coin] = ''exp-001-database-impact'' # later \<and>
      ''exp-003-context-window-optimization'' \<in> set later \<and>
      ''exp-004-training-protocol-effectiveness'' \<in> set later) \<and>
   (\<exists>s' earlier.
      schedule_all new_ExperimentScheduler
        [(''exp-003-context-window-optimization'', Normal),
         (''exp-010-temporal-consistency'', Low)] = Inr s' \<and>
      executed_ids s' [coin, coin, coin] = earlier @ [''exp-010-temporal-consistency''] \<and>
      ''exp-003-context-window-optimization'' \<in> set earlier) \<and>
   scheduleExperiment new_ExperimentScheduler ''exp-001-database-impact'' Normal =
     Inr (new_ExperimentScheduler\<lparr>experimentQueue := [EXPERIMENT_CATALOG ! 0]\<rparr>)"
proof -
  have l: "length (experimentQueue new_ExperimentScheduler) + 3 \<le> length [coin, coin, coin]"
          "length (experimentQueue new_ExperimentScheduler) + 2 \<le> length [coin, coin, coin]"
          "experimentQueue new_ExperimentScheduler = []"
    by (simp_all add: new_ExperimentScheduler_def)
  have 1: "\<exists>s' later.
      schedule_all new_ExperimentScheduler
        [(''exp-003-context-window-optimization'', Normal),
         (''exp-004-training-protocol-effectiveness'', Normal),
         (''exp-001-database-impact'', High)] = Inr s' \<and>
      executed_ids s' [coin, coin, coin] = ''exp-001-database-impact'' # later \<and>
      ''exp-003-context-window-optimization'' \<in> set later \<and>
      ''exp-004-training-protocol-effectiveness'' \<in> set later"
    using scheduleExperiment_positions[of _ _ new_ExperimentScheduler _
        "''exp-003-context-window-optimization''" "EXPERIMENT_CATALOG ! 2"
        "''exp-004-training-protocol-effectiveness''" "EXPERIMENT_CATALOG ! 3"
        "''exp-001-database-impact''" "EXPERIMENT_CATALOG ! 0" "[coin, coin, coin]"]
      catalog_lookup l(1) by blast
  have 2: "\<exists>s' earlier.
      schedule_all new_ExperimentScheduler
        [(''exp-003-context-window-optimization'', Normal),
         (''exp-010-temporal-consistency'', Low)] = Inr s' \<and>
      executed_ids s' [coin, coin, coin] = earlier @ [''exp-010-temporal-consistency''] \<and>
      ''exp-003-context-window-optimization'' \<in> set earlier"
    using scheduleExperiment_positions[of _ _ new_ExperimentScheduler _
        "''exp-003-context-window-optimization''" "EXPERIMENT_CATALOG ! 2" _ _ _ _
        "[coin, coin, coin]" "''exp-010-temporal-consistency''" "EXPERIMENT_CATALOG ! 9"]
      catalog_lookup l(2) by blast
  have 3: "scheduleExperiment new_ExperimentScheduler ''exp-001-database-impact'' Normal =
     Inr (new_ExperimentScheduler\<lparr>experimentQueue := [EXPERIMENT_CATALOG ! 0]\<rparr>)"
    using scheduleExperiment_positions[of "''exp-001-database-impact''" "EXPERIMENT_CATALOG ! 0"
        new_ExperimentScheduler] catalog_lookup(1) l(3) by simp
  show ?thesis using catalog_lookup l(1) 1 2 3 by blast
qed

end
